theory Spec2Isabelle
  imports Main "HOL-Library.Word"
begin

section \<open>The native streaming bridge: data model\<close>

text \<open>
  This theory embeds \<^verbatim>\<open>app/src/main/cpp/tutorial_udpsink.c\<close>. The C file keeps its
  state in file-scope globals and in one heap-allocated \<^verbatim>\<open>CustomData\<close>; it talks to
  three outside parties: the media engine (GStreamer), GLib/pthread, and the Java
  controller (through JNI). The embedding threads one record, \<open>world\<close>, through every
  function. It holds the C globals, the session data, the part of the engine's object
  store the program can observe through its own calls, and the trace of every call the
  program makes to an outside party, in program order.

  What an outside party answers is not decided by the C file. Each function therefore
  takes an \<open>env\<close>: the answers the engine gives during that call, and the one ABI
  choice the C text leaves open (whether plain \<^verbatim>\<open>char\<close> is signed).
\<close>

type_synonym handle = nat
  \<comment> \<open>a non-NULL pointer to an engine object; a C pointer is a \<open>handle option\<close>\<close>

type_synonym cchar = "8 word"
  \<comment> \<open>the eight bits of a C \<^verbatim>\<open>char\<close> or \<^verbatim>\<open>unsigned char\<close>\<close>

type_synonym pad = "handle \<times> string"
  \<comment> \<open>a pad of an element, by element and pad name\<close>

datatype GstState =
  GST_STATE_VOID_PENDING | GST_STATE_NULL | GST_STATE_READY | GST_STATE_PAUSED | GST_STATE_PLAYING

datatype GstStateChangeReturn =
  GST_STATE_CHANGE_FAILURE | GST_STATE_CHANGE_SUCCESS | GST_STATE_CHANGE_ASYNC
  | GST_STATE_CHANGE_NO_PREROLL

datatype gvalue = G_int int | G_string string | G_caps string "(string \<times> int) list"

text \<open>A message on a pipeline's bus, as far as the two bus callbacks read it.\<close>

datatype GstMessage =
    Msg_error "handle option" string string
      \<comment> \<open>source object, \<^verbatim>\<open>GST_OBJECT_NAME (msg->src)\<close>, \<^verbatim>\<open>err->message\<close>\<close>
  | Msg_state_changed "handle option" GstState GstState GstState
      \<comment> \<open>source object, old, new and pending state\<close>

datatype handler = Error_cb | State_changed_cb | On_pad_added "handle option"
  \<comment> \<open>a callback with its user data; the bus callbacks get the session's \<^verbatim>\<open>CustomData\<close>\<close>

text \<open>
  Every call to an outside party, with the arguments the program passed and the answer it
  got. Format arguments that print a pointer (\<^verbatim>\<open>%p\<close>) are not recorded.
\<close>

datatype call =
    Factory_make string "string option" "handle option"
  | Pipeline_new string "handle option"
  | Parse_launch string "handle option"
  | Bin_add_many "handle option" "handle option list"
  | Element_link "handle option" "handle option" bool
  | Object_set "handle option" string gvalue
  | Set_state "handle option" GstState GstStateChangeReturn
  | Get_static_pad "handle option" string "pad option"
  | Pad_link pad "pad option" bool
  | Object_unref_pad "pad option"
  | Object_unref "handle option"
  | Bus_add_watch "handle option"
  | Signal_connect "handle option" string handler
  | Main_context_new
  | Main_loop_new
  | Main_loop_run
  | Main_loop_quit bool
  | Main_loop_unref
  | Main_context_unref
  | Pthread_create
  | Pthread_join
  | New_global_ref
  | Delete_global_ref
  | G_new0_CustomData
  | G_free_CustomData
  | Set_long_field bool
  | Call_setMessage string
  | Call_onGStreamerInitialized
  | Exception_clear
  | Attach_current_thread bool
  | Detach_current_thread
  | G_print string
  | GST_DEBUG string
  | GST_ERROR string

record gst_object =
  factory :: string
  oname :: "string option"
  props :: "string \<Rightarrow> gvalue option"
  target :: GstState
  parent :: "handle option"

datatype GMainLoop = GMainLoop (is_running: bool)

record CustomData =
  app :: bool
  cd_pipeline :: "handle option"
  main_context :: bool
  main_loop :: "GMainLoop option"
  initialized :: bool

datatype thread_status = No_thread | Created | In_main_loop | Exited

record world =
  video_running :: bool
  pipeline :: "handle option"
  camera :: "handle option"
  queue :: "handle option"
  capsfilter :: "handle option"
  videoconvert :: "handle option"
  encoder :: "handle option"
  udpsink :: "handle option"
  first_time_video :: bool
  first_time_audio :: bool
  pipeline_audio :: "handle option"
  audiosource :: "handle option"
  audioconvert :: "handle option"
  speexenc :: "handle option"
  audioudpsink :: "handle option"
  native_custom_data :: "CustomData option"
  gst_app_thread :: thread_status
  current_jni_env :: bool
  objects :: "gst_object list"
  links :: "(handle \<times> handle) list"
  pad_links :: "(pad \<times> pad) list"
  watches :: "handle list"
  connections :: "(handle \<times> string \<times> handler) list"
  calls :: "call list"

record env =
  char_signed :: bool
  make_ok :: "string \<Rightarrow> bool"
  pipeline_ok :: bool
  parse_error :: "string option"
  parse_partial :: bool
  link_ok :: "handle \<Rightarrow> handle \<Rightarrow> bool"
  state_ret :: "handle \<Rightarrow> GstState \<Rightarrow> GstStateChangeReturn"
  static_pad :: "handle \<Rightarrow> string \<Rightarrow> bool"
  pad_link_ok :: "pad \<Rightarrow> pad \<Rightarrow> bool"
  java_throws :: bool
  attach_ok :: bool

text \<open>
  The world at library load: the initialisers of the globals (lines 191-206 and 317-318),
  no session, an empty engine store and an empty trace.
\<close>

definition world0 :: world where
  "world0 = \<lparr> video_running = False, pipeline = None, camera = None, queue = None,
      capsfilter = None, videoconvert = None, encoder = None, udpsink = None,
      first_time_video = True, first_time_audio = True,
      pipeline_audio = None, audiosource = None, audioconvert = None, speexenc = None,
      audioudpsink = None, native_custom_data = None, gst_app_thread = No_thread,
      current_jni_env = False, objects = [], links = [], pad_links = [], watches = [], connections = [],
      calls = [] \<rparr>"

section \<open>Control flow of a C function body\<close>

text \<open>
  A statement either falls through to the next one or leaves the function: by
  \<^verbatim>\<open>return\<close>, or because the process is killed (\<open>Abort\<close>): a failed \<^verbatim>\<open>g_assert\<close>
  aborts it, and so does, in the session part, a call through a NULL \<^verbatim>\<open>JNIEnv\<close>.
\<close>

datatype exit = Return int | Abort

type_synonym stmt = "world \<Rightarrow> exit option \<times> world"

definition exec :: "(world \<Rightarrow> world) \<Rightarrow> stmt" where
  "exec f w = (None, f w)"

definition return :: "int \<Rightarrow> stmt" where
  "return v w = (Some (Return v), w)"

definition g_assert :: "(world \<Rightarrow> bool) \<Rightarrow> stmt" where
  "g_assert c w = (if c w then (None, w) else (Some Abort, w))"

fun block :: "stmt list \<Rightarrow> stmt" where
  "block [] w = (None, w)"
| "block (s # ss) w = (case s w of (None, w') \<Rightarrow> block ss w' | (Some e, w') \<Rightarrow> (Some e, w'))"

definition if_then :: "(world \<Rightarrow> bool) \<Rightarrow> stmt \<Rightarrow> stmt" where
  "if_then c s w = (if c w then s w else (None, w))"

definition if_call :: "(world \<Rightarrow> bool \<times> world) \<Rightarrow> stmt \<Rightarrow> stmt \<Rightarrow> stmt" where
  "if_call c s1 s2 w = (case c w of (b, w') \<Rightarrow> if b then s1 w' else s2 w')"

section \<open>The outside parties\<close>

definition emit :: "call \<Rightarrow> world \<Rightarrow> world" where
  "emit c w = w\<lparr>calls := calls w @ [c]\<rparr>"

definition g_print :: "string \<Rightarrow> world \<Rightarrow> world" where
  "g_print s = emit (G_print s)"

definition gst_debug :: "string \<Rightarrow> world \<Rightarrow> world" where
  "gst_debug s = emit (GST_DEBUG s)"

definition gst_error :: "string \<Rightarrow> world \<Rightarrow> world" where
  "gst_error s = emit (GST_ERROR s)"

definition new_object :: "string \<Rightarrow> string option \<Rightarrow> gst_object" where
  "new_object f n = \<lparr> factory = f, oname = n, props = (\<lambda>k. None), target = GST_STATE_NULL,
     parent = None \<rparr>"

text \<open>
  \<^verbatim>\<open>gst_element_factory_make\<close>: a new element of the named factory, or NULL when the
  engine cannot provide one. A new object gets the next free handle.
\<close>

definition gst_element_factory_make ::
  "env \<Rightarrow> string \<Rightarrow> string option \<Rightarrow> world \<Rightarrow> handle option \<times> world" where
  "gst_element_factory_make env f n w =
     (if make_ok env f
      then (Some (length (objects w)),
            emit (Factory_make f n (Some (length (objects w))))
              (w\<lparr>objects := objects w @ [new_object f n]\<rparr>))
      else (None, emit (Factory_make f n None) w))"

definition gst_pipeline_new :: "env \<Rightarrow> string \<Rightarrow> world \<Rightarrow> handle option \<times> world" where
  "gst_pipeline_new env n w =
     (if pipeline_ok env
      then (Some (length (objects w)),
            emit (Pipeline_new n (Some (length (objects w))))
              (w\<lparr>objects := objects w @ [new_object ''pipeline'' (Some n)]\<rparr>))
      else (None, emit (Pipeline_new n None) w))"

text \<open>
  \<^verbatim>\<open>gst_bin_add_many (bin, e1, ..., NULL)\<close>: the argument list ends at the first NULL;
  each element before it that has no parent yet becomes a child of the bin.
\<close>

definition set_parent :: "handle \<Rightarrow> handle \<Rightarrow> gst_object list \<Rightarrow> gst_object list" where
  "set_parent b e os =
     (if e < length os \<and> parent (os ! e) = None then os[e := (os ! e)\<lparr>parent := Some b\<rparr>]
      else os)"

definition add_children ::
  "handle option \<Rightarrow> handle option list \<Rightarrow> gst_object list \<Rightarrow> gst_object list" where
  "add_children b es os =
     (case b of None \<Rightarrow> os
      | Some p \<Rightarrow> foldl (\<lambda>os e. set_parent p e os) os (map the (takeWhile (\<lambda>e. e \<noteq> None) es)))"

definition gst_bin_add_many :: "handle option \<Rightarrow> handle option list \<Rightarrow> world \<Rightarrow> world" where
  "gst_bin_add_many b es w =
     emit (Bin_add_many b es) (w\<lparr>objects := add_children b es (objects w)\<rparr>)"

text \<open>
  \<^verbatim>\<open>gst_element_link (src, dest)\<close>: TRUE and a new link when the engine can connect the
  two elements, FALSE otherwise (also for a NULL argument).
\<close>

definition link_answer :: "env \<Rightarrow> handle option \<Rightarrow> handle option \<Rightarrow> bool" where
  "link_answer env a b = (case (a, b) of (Some x, Some y) \<Rightarrow> link_ok env x y | _ \<Rightarrow> False)"

definition gst_element_link ::
  "env \<Rightarrow> handle option \<Rightarrow> handle option \<Rightarrow> world \<Rightarrow> bool \<times> world" where
  "gst_element_link env a b w =
     (link_answer env a b,
      emit (Element_link a b (link_answer env a b))
        (if link_answer env a b then w\<lparr>links := links w @ [(the a, the b)]\<rparr> else w))"

text \<open>\<^verbatim>\<open>g_object_set (obj, key, value, NULL)\<close>: the property takes the value; a NULL object is left alone.\<close>

definition set_prop ::
  "handle option \<Rightarrow> string \<Rightarrow> gvalue \<Rightarrow> gst_object list \<Rightarrow> gst_object list" where
  "set_prop obj k v os =
     (case obj of None \<Rightarrow> os
      | Some x \<Rightarrow>
          if x < length os then os[x := (os ! x)\<lparr>props := (props (os ! x))(k \<mapsto> v)\<rparr>] else os)"

definition g_object_set :: "handle option \<Rightarrow> string \<Rightarrow> gvalue \<Rightarrow> world \<Rightarrow> world" where
  "g_object_set obj k v w =
     emit (Object_set obj k v) (w\<lparr>objects := set_prop obj k v (objects w)\<rparr>)"

text \<open>
  \<^verbatim>\<open>gst_element_set_state (element, state)\<close>: the engine records the requested state as
  the element's target state before it attempts the transition, and answers whether the
  transition failed, succeeded or completes later. The state the model tracks for an
  object is this target: the last state requested for it. A NULL element is refused with
  \<^verbatim>\<open>GST_STATE_CHANGE_FAILURE\<close>.
\<close>

definition set_target :: "handle option \<Rightarrow> GstState \<Rightarrow> gst_object list \<Rightarrow> gst_object list" where
  "set_target e s os =
     (case e of None \<Rightarrow> os
      | Some x \<Rightarrow> if x < length os then os[x := (os ! x)\<lparr>target := s\<rparr>] else os)"

definition set_state_answer :: "env \<Rightarrow> handle option \<Rightarrow> GstState \<Rightarrow> GstStateChangeReturn" where
  "set_state_answer env e s =
     (case e of None \<Rightarrow> GST_STATE_CHANGE_FAILURE | Some x \<Rightarrow> state_ret env x s)"

definition gst_element_set_state ::
  "env \<Rightarrow> handle option \<Rightarrow> GstState \<Rightarrow> world \<Rightarrow> GstStateChangeReturn \<times> world" where
  "gst_element_set_state env e s w =
     (set_state_answer env e s,
      emit (Set_state e s (set_state_answer env e s)) (w\<lparr>objects := set_target e s (objects w)\<rparr>))"

section \<open>Formatting the destination address\<close>

text \<open>
  \<^verbatim>\<open>%d\<close> of an \<^verbatim>\<open>int\<close>: decimal digits, with a minus sign for a negative value.
\<close>

fun digits10 :: "nat \<Rightarrow> string" where
  "digits10 n =
     (if n < 10 then [char_of (48 + n)] else digits10 (n div 10) @ [char_of (48 + n mod 10)])"

declare digits10.simps [simp del]

definition printf_d :: "int \<Rightarrow> string" where
  "printf_d i = (if i < 0 then CHR ''-'' # digits10 (nat (- i)) else digits10 (nat i))"

definition sprintf_d4 :: "int \<Rightarrow> int \<Rightarrow> int \<Rightarrow> int \<Rightarrow> string" where
  "sprintf_d4 a b c d =
     printf_d a @ ''.'' @ printf_d b @ ''.'' @ printf_d c @ ''.'' @ printf_d d"

text \<open>
  A \<^verbatim>\<open>char\<close> passed to a variadic function is promoted to \<^verbatim>\<open>int\<close>: sign-extended
  where plain \<^verbatim>\<open>char\<close> is signed, zero-extended where it is unsigned.
\<close>

definition char_to_int :: "env \<Rightarrow> cchar \<Rightarrow> int" where
  "char_to_int env c = (if char_signed env then sint c else uint c)"

section \<open>The video pipeline\<close>

text \<open>
  \<^verbatim>\<open>video_start\<close>, lines 208-314. The body of \<^verbatim>\<open>if (first_time_video)\<close> is given in
  two parts: \<open>video_make\<close> (lines 224-261: the seven objects, each followed by its
  assertion, and \<^verbatim>\<open>gst_bin_add_many\<close>) and \<open>video_link\<close> (lines 263-296: the five
  links, each returning -1 when it fails).
\<close>

definition video_make :: "env \<Rightarrow> stmt" where
  "video_make env = block [
     exec (\<lambda>w. case gst_element_factory_make env ''ahcsrc'' (Some ''ahcsrc'') w of
                  (e, w') \<Rightarrow> w'\<lparr>camera := e\<rparr>),
     if_then (\<lambda>w. camera w = None) (exec (gst_debug ''NOGO: camera is null!'')),
     g_assert (\<lambda>w. camera w \<noteq> None),
     exec (\<lambda>w. case gst_pipeline_new env ''pipeline'' w of (e, w') \<Rightarrow> w'\<lparr>pipeline := e\<rparr>),
     g_assert (\<lambda>w. pipeline w \<noteq> None),
     exec (\<lambda>w. case gst_element_factory_make env ''queue'' (Some ''srcqueue'') w of
                  (e, w') \<Rightarrow> w'\<lparr>queue := e\<rparr>),
     g_assert (\<lambda>w. queue w \<noteq> None),
     exec (\<lambda>w. case gst_element_factory_make env ''capsfilter'' None w of
                  (e, w') \<Rightarrow> w'\<lparr>capsfilter := e\<rparr>),
     if_then (\<lambda>w. capsfilter w = None) (exec (gst_debug ''capsfilter is null: NOGO!'')),
     g_assert (\<lambda>w. capsfilter w \<noteq> None),
     exec (\<lambda>w. g_object_set (capsfilter w) ''caps''
                  (G_caps ''video/x-raw'' [(''width'', 320), (''height'', 240)]) w),
     exec (\<lambda>w. case gst_element_factory_make env ''videoconvert'' None w of
                  (e, w') \<Rightarrow> w'\<lparr>videoconvert := e\<rparr>),
     if_then (\<lambda>w. videoconvert w = None) (exec (gst_debug ''videoconvert is null: NOGO!'')),
     g_assert (\<lambda>w. videoconvert w \<noteq> None),
     exec (\<lambda>w. case gst_element_factory_make env ''openh264enc'' (Some ''encoder'') w of
                  (e, w') \<Rightarrow> w'\<lparr>encoder := e\<rparr>),
     if_then (\<lambda>w. encoder w = None) (exec (gst_debug ''encoder is null: NOGO!'')),
     g_assert (\<lambda>w. encoder w \<noteq> None),
     exec (\<lambda>w. case gst_element_factory_make env ''udpsink'' (Some ''sink'') w of
                  (e, w') \<Rightarrow> w'\<lparr>udpsink := e\<rparr>),
     if_then (\<lambda>w. udpsink w = None) (exec (gst_debug ''UDP sink is null: NOGO!'')),
     g_assert (\<lambda>w. udpsink w \<noteq> None),
     exec (\<lambda>w. gst_bin_add_many (pipeline w)
                  [camera w, queue w, capsfilter w, videoconvert w, encoder w, udpsink w] w)
   ]"

text \<open>
  One \<^verbatim>\<open>if (!gst_element_link (a, b)) { GST_DEBUG (failed); return -1; } else { g_print (ok); }\<close>.
\<close>

definition link_or_fail ::
  "env \<Rightarrow> (world \<Rightarrow> handle option) \<Rightarrow> (world \<Rightarrow> handle option) \<Rightarrow> string \<Rightarrow> string \<Rightarrow> stmt" where
  "link_or_fail env a b failed ok =
     if_call (\<lambda>w. case gst_element_link env (a w) (b w) w of (r, w') \<Rightarrow> (\<not> r, w'))
       (block [exec (gst_debug failed), return (- 1)])
       (exec (g_print ok))"

definition video_link :: "env \<Rightarrow> stmt" where
  "video_link env = block [
     link_or_fail env camera queue
       ''Failed to link ahcsrc camera with queue!\<newline>'' ''Linked ahcsrc camera with queue: OK\<newline>'',
     link_or_fail env queue capsfilter
       ''Failed to link queue with capsfilter!\<newline>'' ''Linked queue with capsfilter: OK\<newline>'',
     link_or_fail env capsfilter videoconvert
       ''Failed to link capsfilter with converter!\<newline>'' ''Linked capsfilter with converter: OK\<newline>'',
     link_or_fail env videoconvert encoder
       ''Failed to link converter with encoder!\<newline>'' ''Linked converter with encoder: OK\<newline>'',
     link_or_fail env encoder udpsink
       ''Failed to link encoder with UDP sink!\<newline>'' ''Linked encoder with UDP sink: OK\<newline>''
   ]"

definition video_start :: "env \<Rightarrow> cchar list \<Rightarrow> stmt" where
  "video_start env arg = block [
     if_then first_time_video
       (block [video_make env, video_link env, exec (\<lambda>w. w\<lparr>first_time_video := False\<rparr>)]),
     exec (\<lambda>w. g_object_set (udpsink w) ''port'' (G_int 5000) w),
     exec (\<lambda>w. g_object_set (udpsink w) ''host''
                  (G_string (sprintf_d4 (char_to_int env (arg ! 0)) (char_to_int env (arg ! 1))
                                        (char_to_int env (arg ! 2)) (char_to_int env (arg ! 3)))) w),
     if_call (\<lambda>w. case gst_element_set_state env (pipeline w) GST_STATE_PLAYING w of
                     (r, w') \<Rightarrow> (r \<noteq> GST_STATE_CHANGE_FAILURE, w'))
       (exec (g_print ''Video pipeline state set to playing: OK\<newline>''))
       (block [exec (gst_debug ''Failed to start up video pipeline!\<newline>''), return (- 1)]),
     exec (\<lambda>w. w\<lparr>video_running := True\<rparr>),
     return 0
   ]"

text \<open>\<^verbatim>\<open>video_stop\<close>, lines 390-397.\<close>

definition video_stop :: "env \<Rightarrow> stmt" where
  "video_stop env = block [
     exec (\<lambda>w. snd (gst_element_set_state env (pipeline w) GST_STATE_PAUSED w)),
     exec (g_print ''Video pipeline: paused\<newline>''),
     exec (\<lambda>w. snd (gst_element_set_state env (pipeline w) GST_STATE_NULL w)),
     exec (g_print ''Video pipeline: null\<newline>''),
     exec (\<lambda>w. w\<lparr>video_running := False\<rparr>),
     return 1
   ]"

text \<open>
  The two native commands, lines 440-452 and 455-464. \<^verbatim>\<open>byte0 + 128\<close> is computed in
  \<^verbatim>\<open>int\<close> and stored into an \<^verbatim>\<open>unsigned char\<close>, that is, reduced modulo 256. The
  receiver-IP line prints the \<^verbatim>\<open>unsigned char\<close> values, which promote to 0..255. A
  command whose callee aborts the process does not print its result line.
\<close>

definition bias :: "env \<Rightarrow> cchar \<Rightarrow> cchar" where
  "bias env b = word_of_int (char_to_int env b + 128)"

definition ok_string :: "bool \<Rightarrow> string" where
  "ok_string b = (if b then ''OK'' else ''NOT OK'')"

definition gst_native_stream_start ::
  "env \<Rightarrow> cchar \<Rightarrow> cchar \<Rightarrow> cchar \<Rightarrow> cchar \<Rightarrow> stmt" where
  "gst_native_stream_start env byte0 byte1 byte2 byte3 w =
     (let ip = [bias env byte0, bias env byte1, bias env byte2, bias env byte3];
          w1 = g_print (''receiver IP: '' @ sprintf_d4 (uint (ip ! 0)) (uint (ip ! 1))
                          (uint (ip ! 2)) (uint (ip ! 3)) @ ''\<newline>'') w
      in case video_start env ip w1 of
           (Some (Return r), w2) \<Rightarrow>
             (None, gst_debug ''my pipeline streaming started''
                      (g_print (''stream_start: '' @ ok_string (r > 0) @ ''\<newline>'') w2))
         | (Some Abort, w2) \<Rightarrow> (Some Abort, w2)
         | (None, w2) \<Rightarrow> (None, w2))"

definition gst_native_stream_stop :: "env \<Rightarrow> stmt" where
  "gst_native_stream_stop env w =
     (case video_stop env w of
        (Some (Return r), w2) \<Rightarrow>
          (None, gst_debug ''my pipeline streaming stopped''
                   (g_print (''stream_stop: '' @ ok_string (r > 0) @ ''\<newline>'') w2))
      | (Some Abort, w2) \<Rightarrow> (Some Abort, w2)
      | (None, w2) \<Rightarrow> (None, w2))"

section \<open>The audio pipeline\<close>

text \<open>
  \<^verbatim>\<open>audio_start\<close>, lines 320-388. The body of \<^verbatim>\<open>if (first_time_audio)\<close> is given
  in two parts: \<open>audio_make\<close> (lines 324-352) and \<open>audio_link\<close> (lines 354-373).
\<close>

definition audio_make :: "env \<Rightarrow> stmt" where
  "audio_make env = block [
     exec (\<lambda>w. case gst_pipeline_new env ''pipeline-audio'' w of
                  (e, w') \<Rightarrow> w'\<lparr>pipeline_audio := e\<rparr>),
     exec (\<lambda>w. case gst_element_factory_make env ''openslessrc'' (Some ''audiosource'') w of
                  (e, w') \<Rightarrow> w'\<lparr>audiosource := e\<rparr>),
     exec (\<lambda>w. case gst_element_factory_make env ''audioconvert'' (Some ''audio-convert'') w of
                  (e, w') \<Rightarrow> w'\<lparr>audioconvert := e\<rparr>),
     exec (\<lambda>w. case gst_element_factory_make env ''speexenc'' (Some ''audio-encoder'') w of
                  (e, w') \<Rightarrow> w'\<lparr>speexenc := e\<rparr>),
     exec (\<lambda>w. case gst_element_factory_make env ''udpsink'' (Some ''sink'') w of
                  (e, w') \<Rightarrow> w'\<lparr>audioudpsink := e\<rparr>),
     if_then (\<lambda>w. audioudpsink w = None) (exec (gst_debug ''audio UDP sink is null: NOGO!'')),
     g_assert (\<lambda>w. audioudpsink w \<noteq> None),
     if_then (\<lambda>w. audiosource w = None)
       (exec (\<lambda>w. case gst_element_factory_make env ''audiotestsrc'' None w of
                    (e, w') \<Rightarrow> w'\<lparr>audiosource := e\<rparr>)),
     g_assert (\<lambda>w. pipeline_audio w \<noteq> None),
     g_assert (\<lambda>w. audiosource w \<noteq> None),
     g_assert (\<lambda>w. audioconvert w \<noteq> None),
     g_assert (\<lambda>w. speexenc w \<noteq> None),
     g_assert (\<lambda>w. audioudpsink w \<noteq> None),
     exec (\<lambda>w. gst_bin_add_many (pipeline_audio w)
                  [audiosource w, audioconvert w, speexenc w, audioudpsink w] w)
   ]"

definition audio_link :: "env \<Rightarrow> stmt" where
  "audio_link env = block [
     link_or_fail env audiosource audioconvert
       ''Failed to link audio source with audioconvert!\<newline>''
       ''Linked audio source with audioconvert: OK\<newline>'',
     link_or_fail env audioconvert speexenc
       ''Failed to link audioconvert with speexenc!\<newline>''
       ''Linked audioconvert with speexenc: OK\<newline>'',
     link_or_fail env speexenc audioudpsink
       ''Failed to link speexenc with audioudpsink!\<newline>''
       ''Linked speexenc with audioudpsink: OK\<newline>''
   ]"

definition audio_start :: "env \<Rightarrow> cchar list \<Rightarrow> stmt" where
  "audio_start env arg = block [
     if_then first_time_audio
       (block [audio_make env, audio_link env, exec (\<lambda>w. w\<lparr>first_time_audio := False\<rparr>)]),
     exec (\<lambda>w. g_object_set (audioudpsink w) ''host''
                  (G_string (sprintf_d4 (char_to_int env (arg ! 0)) (char_to_int env (arg ! 1))
                                        (char_to_int env (arg ! 2)) (char_to_int env (arg ! 3)))) w),
     exec (\<lambda>w. g_object_set (audioudpsink w) ''port'' (G_int 5001) w),
     if_call (\<lambda>w. case gst_element_set_state env (pipeline_audio w) GST_STATE_PLAYING w of
                     (r, w') \<Rightarrow> (r \<noteq> GST_STATE_CHANGE_FAILURE, w'))
       (block [exec (g_print ''GO: Audio pipeline state set to playing.\<newline>''), return 1])
       (block [exec (g_print ''NOGO: Failed to start up audio pipeline!\<newline>''), return (- 1)])
   ]"

text \<open>\<^verbatim>\<open>audio_stop\<close>, lines 399-405.\<close>

definition audio_stop :: "env \<Rightarrow> stmt" where
  "audio_stop env = block [
     exec (\<lambda>w. snd (gst_element_set_state env (pipeline_audio w) GST_STATE_PAUSED w)),
     exec (g_print ''Audio pipeline: paused\<newline>''),
     exec (\<lambda>w. snd (gst_element_set_state env (pipeline_audio w) GST_STATE_NULL w)),
     exec (g_print ''Audio pipeline: null\<newline>''),
     return 1
   ]"

section \<open>The dynamic-link handler\<close>

text \<open>
  \<^verbatim>\<open>gst_element_get_static_pad\<close> answers NULL when the element has no pad of that name;
  \<^verbatim>\<open>gst_pad_link\<close> refuses a NULL sink pad and otherwise links when the engine accepts.
  \<^verbatim>\<open>on_pad_added\<close>, lines 194-201, returns nothing and reads no answer.
\<close>

definition gst_element_get_static_pad ::
  "env \<Rightarrow> handle option \<Rightarrow> string \<Rightarrow> world \<Rightarrow> pad option \<times> world" where
  "gst_element_get_static_pad env e n w =
     (let r = (case e of None \<Rightarrow> None
               | Some x \<Rightarrow> if static_pad env x n then Some (x, n) else None)
      in (r, emit (Get_static_pad e n r) w))"

definition gst_pad_link :: "env \<Rightarrow> pad \<Rightarrow> pad option \<Rightarrow> world \<Rightarrow> bool \<times> world" where
  "gst_pad_link env src snk w =
     (case snk of
        None \<Rightarrow> (False, emit (Pad_link src snk False) w)
      | Some s \<Rightarrow>
          if pad_link_ok env src s
          then (True, emit (Pad_link src snk True) (w\<lparr>pad_links := pad_links w @ [(src, s)]\<rparr>))
          else (False, emit (Pad_link src snk False) w))"

definition on_pad_added :: "env \<Rightarrow> handle \<Rightarrow> pad \<Rightarrow> handle option \<Rightarrow> world \<Rightarrow> world" where
  "on_pad_added env element new_pad data w =
     (let w1 = g_print ''Dynamic pad created, linking\<newline>'' w;
          (sinkpad, w2) = gst_element_get_static_pad env data ''sink'' w1;
          w3 = snd (gst_pad_link env new_pad sinkpad w2)
      in emit (Object_unref_pad sinkpad) w3)"

section \<open>The session: callbacks, the application thread, init and finalize\<close>

text \<open>
  The model follows one Session Context at a time: \<open>native_custom_data\<close> is the
  \<^verbatim>\<open>CustomData\<close> the Java field points to (\<open>None\<close> for a NULL field), and the
  callbacks, which receive that pointer as user data, read it there.

  The JNI glue, lines 45-79. \<^verbatim>\<open>current_jni_env\<close> is a thread-specific key. Its only reader
  is \<^verbatim>\<open>get_jni_env\<close>, called by \<^verbatim>\<open>set_ui_message\<close> and \<^verbatim>\<open>check_initialization_complete\<close>,
  which run on the application thread only (in \<^verbatim>\<open>app_function\<close> and in the bus callbacks its
  main loop dispatches); the field \<open>current_jni_env\<close> is that thread's slot, true when it
  holds a non-NULL \<^verbatim>\<open>JNIEnv\<close>. The functions answer whether the \<^verbatim>\<open>JNIEnv\<close> they return is
  non-NULL. The key was created with \<^verbatim>\<open>detach_current_thread\<close> as its destructor (line 507),
  which the thread library runs when a thread exits with a non-NULL slot: \<open>thread_exit\<close>.
\<close>

definition attach_current_thread :: "env \<Rightarrow> world \<Rightarrow> bool \<times> world" where
  "attach_current_thread env w =
     (let w1 = gst_debug ''Attaching thread'' w
      in if attach_ok env
         then (True, emit (Attach_current_thread True) w1)
         else (False, gst_error ''Failed to attach current thread''
                        (emit (Attach_current_thread False) w1)))"

definition detach_current_thread :: "world \<Rightarrow> world" where
  "detach_current_thread w = emit Detach_current_thread (gst_debug ''Detaching thread'' w)"

definition get_jni_env :: "env \<Rightarrow> world \<Rightarrow> bool \<times> world" where
  "get_jni_env env w =
     (if current_jni_env w then (True, w)
      else (case attach_current_thread env w of
              (jni, w1) \<Rightarrow> (jni, w1\<lparr>current_jni_env := jni\<rparr>)))"

definition thread_exit :: "world \<Rightarrow> world" where
  "thread_exit w =
     (if current_jni_env w then (detach_current_thread w)\<lparr>current_jni_env := False\<rparr> else w)
       \<lparr>gst_app_thread := Exited\<rparr>"

definition data_pipeline :: "world \<Rightarrow> handle option" where
  "data_pipeline w = (case native_custom_data w of None \<Rightarrow> None | Some d \<Rightarrow> cd_pipeline d)"

definition upd_data :: "(CustomData \<Rightarrow> CustomData) \<Rightarrow> world \<Rightarrow> world" where
  "upd_data f w = w\<lparr>native_custom_data := map_option f (native_custom_data w)\<rparr>"

text \<open>
  \<^verbatim>\<open>set_ui_message\<close>, lines 82-92. The \<^verbatim>\<open>JNIEnv\<close> is used without a check: with a NULL
  one, \<^verbatim>\<open>(*env)->NewStringUTF\<close> on line 85 kills the process.
\<close>

definition java_exception_check :: "env \<Rightarrow> world \<Rightarrow> world" where
  "java_exception_check env w =
     (if java_throws env
      then emit Exception_clear (gst_error ''Failed to call Java method'' w)
      else w)"

definition set_ui_message :: "env \<Rightarrow> string \<Rightarrow> stmt" where
  "set_ui_message env message w =
     (case get_jni_env env w of
        (jni, w1) \<Rightarrow>
          (let w2 = gst_debug (''Setting message to: '' @ message) w1
           in if jni
              then (None, java_exception_check env (emit (Call_setMessage message) w2))
              else (Some Abort, w2)))"

text \<open>\<^verbatim>\<open>error_cb\<close>, lines 95-108.\<close>

definition error_cb :: "env \<Rightarrow> GstMessage \<Rightarrow> stmt" where
  "error_cb env msg =
     (case msg of
        Msg_error src src_name err_message \<Rightarrow>
          block [
            set_ui_message env (''Error received from element '' @ src_name @ '': '' @ err_message),
            exec (\<lambda>w. snd (gst_element_set_state env (data_pipeline w) GST_STATE_NULL w))]
      | _ \<Rightarrow> block [])"

text \<open>\<^verbatim>\<open>state_changed_cb\<close>, lines 111-121.\<close>

definition gst_element_state_get_name :: "GstState \<Rightarrow> string" where
  "gst_element_state_get_name s =
     (case s of GST_STATE_VOID_PENDING \<Rightarrow> ''VOID_PENDING'' | GST_STATE_NULL \<Rightarrow> ''NULL''
      | GST_STATE_READY \<Rightarrow> ''READY'' | GST_STATE_PAUSED \<Rightarrow> ''PAUSED''
      | GST_STATE_PLAYING \<Rightarrow> ''PLAYING'')"

definition state_changed_cb :: "env \<Rightarrow> GstMessage \<Rightarrow> stmt" where
  "state_changed_cb env msg =
     (case msg of
        Msg_state_changed src old_state new_state pending_state \<Rightarrow>
          if_then (\<lambda>w. src = data_pipeline w)
            (set_ui_message env (''State changed to '' @ gst_element_state_get_name new_state))
      | _ \<Rightarrow> block [])"

text \<open>
  \<^verbatim>\<open>check_initialization_complete\<close>, lines 125-136. The \<^verbatim>\<open>JNIEnv\<close> is fetched first (line
  126) and used, unchecked, on line 129 only. The function reads \<^verbatim>\<open>data->initialized\<close>: it
  is called on the application thread, whose \<^verbatim>\<open>CustomData\<close> is alive (a freed one is a
  killed process here).
\<close>

definition check_initialization_complete :: "env \<Rightarrow> stmt" where
  "check_initialization_complete env w =
     (case get_jni_env env w of
        (jni, w1) \<Rightarrow>
          (case native_custom_data w1 of
             None \<Rightarrow> (Some Abort, w1)
           | Some d \<Rightarrow>
               if \<not> initialized d \<and> main_loop d \<noteq> None
               then (let w2 = gst_debug ''Initialization complete, notifying application.'' w1
                     in if jni
                        then (None, upd_data (\<lambda>d. d\<lparr>initialized := True\<rparr>)
                                      (java_exception_check env (emit Call_onGStreamerInitialized w2)))
                        else (Some Abort, w2))
               else (None, w1)))"

text \<open>
  \<^verbatim>\<open>app_function\<close>, lines 139-189, runs on the thread \<^verbatim>\<open>gst_native_init\<close> creates. It
  is given in the two parts that \<^verbatim>\<open>g_main_loop_run\<close> separates. \<open>app_function_begin\<close>
  (lines 146-177) ends either with the early \<^verbatim>\<open>return NULL\<close> of line 160, the thread
  exited, or inside \<^verbatim>\<open>g_main_loop_run\<close> (the last statement of the body: the loop
  is running), or with the process killed (\<open>None\<close>). \<open>app_function_end\<close> (lines 178-188) is
  what the thread does once the loop has been told to quit. \<^verbatim>\<open>gst_parse_launch\<close> answers a
  new pipeline, or an error (with or without a partly built pipeline). The bus of a pipeline
  is identified with the pipeline: \<open>watches\<close> lists the buses whose event source is
  attached to the context, \<open>connections\<close> the callbacks connected to signals of objects.
\<close>

definition gst_parse_launch :: "env \<Rightarrow> string \<Rightarrow> world \<Rightarrow> handle option \<times> world" where
  "gst_parse_launch env descr w =
     (if parse_error env = None \<or> parse_partial env
      then (Some (length (objects w)),
            emit (Parse_launch descr (Some (length (objects w))))
              (w\<lparr>objects := objects w @ [new_object ''pipeline'' None]\<rparr>))
      else (None, emit (Parse_launch descr None) w))"

definition g_signal_connect :: "handle option \<Rightarrow> string \<Rightarrow> handler \<Rightarrow> world \<Rightarrow> world" where
  "g_signal_connect obj sig h w =
     emit (Signal_connect obj sig h)
       (case obj of None \<Rightarrow> w | Some x \<Rightarrow> w\<lparr>connections := connections w @ [(x, sig, h)]\<rparr>)"

definition bus_add_watch :: "handle option \<Rightarrow> world \<Rightarrow> world" where
  "bus_add_watch bus w =
     emit (Bus_add_watch bus) (case bus of None \<Rightarrow> w | Some x \<Rightarrow> w\<lparr>watches := watches w @ [x]\<rparr>)"

definition app_function_begin_body :: "env \<Rightarrow> stmt" where
  "app_function_begin_body env = block [
     exec (gst_debug ''Creating pipeline in CustomData''),
     exec (\<lambda>w. emit Main_context_new (upd_data (\<lambda>d. d\<lparr>main_context := True\<rparr>) w)),
     exec (\<lambda>w. case gst_parse_launch env
                       ''audiotestsrc ! audioconvert ! audioresample ! autoaudiosink'' w of
                  (p, w') \<Rightarrow> upd_data (\<lambda>d. d\<lparr>cd_pipeline := p\<rparr>) w'),
     if_then (\<lambda>w. parse_error env \<noteq> None)
       (block [set_ui_message env (''Unable to build pipeline: '' @ the (parse_error env)),
               return 0]),
     exec (\<lambda>w. bus_add_watch (data_pipeline w) w),
     exec (\<lambda>w. g_signal_connect (data_pipeline w) ''message::error'' Error_cb w),
     exec (\<lambda>w. g_signal_connect (data_pipeline w) ''message::state-changed'' State_changed_cb w),
     exec (gst_debug ''Entering main loop...''),
     exec (\<lambda>w. emit Main_loop_new (upd_data (\<lambda>d. d\<lparr>main_loop := Some (GMainLoop False)\<rparr>) w)),
     check_initialization_complete env,
     exec (upd_data (\<lambda>d. d\<lparr>main_loop := Some (GMainLoop True)\<rparr>))
   ]"

definition app_function_begin :: "env \<Rightarrow> world \<Rightarrow> world option" where
  "app_function_begin env w =
     (case app_function_begin_body env w of
        (Some Abort, w') \<Rightarrow> None
      | (Some (Return r), w') \<Rightarrow> Some (thread_exit w')
      | (None, w') \<Rightarrow> Some (w'\<lparr>gst_app_thread := In_main_loop\<rparr>))"

definition app_function_end :: "env \<Rightarrow> world \<Rightarrow> world" where
  "app_function_end env w =
     (let w1 = gst_debug ''Exited main loop'' (emit Main_loop_run w);
          w2 = upd_data (\<lambda>d. d\<lparr>main_loop := None\<rparr>) (emit Main_loop_unref w1);
          w3 = emit Main_context_unref (w2\<lparr>watches := []\<rparr>);
          w4 = snd (gst_element_set_state env (data_pipeline w3) GST_STATE_NULL w3);
          w5 = emit (Object_unref (data_pipeline w4)) w4
      in thread_exit w5)"

text \<open>
  What the engine can raise: a message on the bus of a pipeline, or a new pad on an
  element. A bus message reaches callbacks only through a watch attached to the context
  of a running main loop, on the application thread; \<^verbatim>\<open>pad-added\<close> is emitted on the
  element directly. Either way the callbacks that run are those connected to that signal
  of that object, in connection order.
\<close>

datatype signal = Bus_message GstMessage | Pad_added pad

definition signal_name :: "signal \<Rightarrow> string" where
  "signal_name sg =
     (case sg of Bus_message (Msg_error _ _ _) \<Rightarrow> ''message::error''
      | Bus_message (Msg_state_changed _ _ _ _) \<Rightarrow> ''message::state-changed''
      | Pad_added _ \<Rightarrow> ''pad-added'')"

fun invoke :: "env \<Rightarrow> handle \<Rightarrow> signal \<Rightarrow> handler \<Rightarrow> stmt" where
  "invoke env obj (Bus_message m) Error_cb = error_cb env m"
| "invoke env obj (Bus_message m) State_changed_cb = state_changed_cb env m"
| "invoke env obj (Pad_added p) (On_pad_added data) = exec (on_pad_added env obj p data)"
| "invoke env obj sg h = block []"

definition handlers_of :: "world \<Rightarrow> handle \<Rightarrow> string \<Rightarrow> handler list" where
  "handlers_of w obj sig = map (\<lambda>(x, n, h). h) (filter (\<lambda>(x, n, h). x = obj \<and> n = sig) (connections w))"

definition g_signal_emit :: "env \<Rightarrow> handle \<Rightarrow> signal \<Rightarrow> stmt" where
  "g_signal_emit env obj sg w =
     block (map (invoke env obj sg) (handlers_of w obj (signal_name sg))) w"

definition engine_signal :: "env \<Rightarrow> handle \<Rightarrow> signal \<Rightarrow> stmt" where
  "engine_signal env obj sg w =
     (case sg of
        Bus_message m \<Rightarrow>
          if gst_app_thread w = In_main_loop \<and> obj \<in> set (watches w)
          then g_signal_emit env obj sg w else (None, w)
      | Pad_added p \<Rightarrow> g_signal_emit env obj sg w)"

text \<open>\<^verbatim>\<open>gst_native_init\<close>, lines 412-421.\<close>

definition gst_native_init :: "world \<Rightarrow> world" where
  "gst_native_init w =
     (let w1 = emit (Set_long_field True)
                 (emit G_new0_CustomData
                    (w\<lparr>native_custom_data :=
                         Some \<lparr> app = False, cd_pipeline = None, main_context = False,
                                main_loop = None, initialized = False \<rparr>\<rparr>));
          w2 = gst_debug ''Created CustomData'' w1;
          w3 = emit New_global_ref (upd_data (\<lambda>d. d\<lparr>app := True\<rparr>) w2);
          w4 = gst_debug ''Created GlobalRef for app object'' w3
      in emit Pthread_create (w4\<lparr>gst_app_thread := Created\<rparr>))"

text \<open>
  \<^verbatim>\<open>gst_native_finalize\<close>, lines 424-437. \<^verbatim>\<open>g_main_loop_quit\<close> clears the running flag
  of a loop and does nothing for NULL. \<^verbatim>\<open>pthread_join\<close> returns once the application
  thread has exited: at once if it already has; after \<open>app_function_end\<close> if it sits in a
  loop that was told to quit; never if its loop keeps running. A thread that has not run
  yet runs \<open>app_function_begin\<close> first. \<open>None\<close> stands for a call that never returns, or
  a killed process.
\<close>

definition g_main_loop_quit :: "world \<Rightarrow> world" where
  "g_main_loop_quit w =
     emit (Main_loop_quit (case native_custom_data w of None \<Rightarrow> False
                           | Some d \<Rightarrow> main_loop d \<noteq> None))
       (upd_data (\<lambda>d. d\<lparr>main_loop := map_option (\<lambda>l. GMainLoop False) (main_loop d)\<rparr>) w)"

definition loop_quit_requested :: "world \<Rightarrow> bool" where
  "loop_quit_requested w =
     (case native_custom_data w of None \<Rightarrow> False
      | Some d \<Rightarrow> main_loop d = Some (GMainLoop False))"

definition thread_finish :: "env \<Rightarrow> world \<Rightarrow> world option" where
  "thread_finish env w =
     (case gst_app_thread w of
        Exited \<Rightarrow> Some w
      | No_thread \<Rightarrow> Some w
      | In_main_loop \<Rightarrow> if loop_quit_requested w then Some (app_function_end env w) else None
      | Created \<Rightarrow>
          (case app_function_begin env w of
             None \<Rightarrow> None
           | Some w1 \<Rightarrow> if gst_app_thread w1 = Exited then Some w1 else None))"

definition pthread_join :: "env \<Rightarrow> world \<Rightarrow> world option" where
  "pthread_join env w = map_option (emit Pthread_join) (thread_finish env w)"

definition gst_native_finalize :: "env \<Rightarrow> world \<Rightarrow> world option" where
  "gst_native_finalize env w =
     (case native_custom_data w of
        None \<Rightarrow> Some w
      | Some d \<Rightarrow>
          (let w1 = gst_debug ''Quitting main loop...'' w;
               w2 = g_main_loop_quit w1;
               w3 = gst_debug ''Waiting for thread to finish...'' w2
           in case pthread_join env w3 of
                None \<Rightarrow> None
              | Some w4 \<Rightarrow>
                  (let w5 = gst_debug ''Deleting GlobalRef for app object'' w4;
                       w6 = emit Delete_global_ref (upd_data (\<lambda>d. d\<lparr>app := False\<rparr>) w5);
                       w7 = gst_debug ''Freeing CustomData'' w6;
                       w8 = emit G_free_CustomData w7;
                       w9 = emit (Set_long_field False) (w8\<lparr>native_custom_data := None\<rparr>)
                   in Some (gst_debug ''Done finalizing'' w9))))"

section \<open>Runs of the whole program\<close>

text \<open>
  What can happen in the life of one Session Context, after \<^verbatim>\<open>gst_native_init\<close> has
  created it: the controller calls a command (the two pipeline functions for audio have
  external linkage and are listed with the native commands), the scheduler lets the
  application thread run, or the engine raises a signal. A run stops, with \<open>None\<close>,
  when the process is killed or a call never returns.
\<close>

datatype event =
    Thread_runs
  | Engine_raises handle signal
  | Stream_start cchar cchar cchar cchar
  | Stream_stop
  | Audio_start "cchar list"
  | Audio_stop
  | Native_finalize

definition finished :: "exit option \<times> world \<Rightarrow> world option" where
  "finished r = (case r of (Some Abort, w) \<Rightarrow> None | (_, w) \<Rightarrow> Some w)"

definition step :: "env \<Rightarrow> event \<Rightarrow> world \<Rightarrow> world option" where
  "step env ev w =
     (case ev of
        Thread_runs \<Rightarrow> if gst_app_thread w = Created then app_function_begin env w else Some w
      | Engine_raises obj sg \<Rightarrow> finished (engine_signal env obj sg w)
      | Stream_start b0 b1 b2 b3 \<Rightarrow> finished (gst_native_stream_start env b0 b1 b2 b3 w)
      | Stream_stop \<Rightarrow> finished (gst_native_stream_stop env w)
      | Audio_start arg \<Rightarrow> finished (audio_start env arg w)
      | Audio_stop \<Rightarrow> finished (audio_stop env w)
      | Native_finalize \<Rightarrow> gst_native_finalize env w)"

fun run :: "(env \<times> event) list \<Rightarrow> world \<Rightarrow> world option" where
  "run [] w = Some w"
| "run ((env, ev) # es) w = (case step env ev w of None \<Rightarrow> None | Some w' \<Rightarrow> run es w')"

section \<open>Notions used to state and prove the properties\<close>

text \<open>
  Three ways to speak about every path through a statement: the exits it can take, an
  observation of the world it leaves as it found it, a measure it never lowers; and
  functions that cannot fall off their end.
\<close>

definition exits_in :: "exit set \<Rightarrow> stmt \<Rightarrow> bool" where
  "exits_in E s = (\<forall>w. case fst (s w) of None \<Rightarrow> True | Some e \<Rightarrow> e \<in> E)"

definition unchanged :: "(world \<Rightarrow> 'a) \<Rightarrow> stmt \<Rightarrow> bool" where
  "unchanged obs s = (\<forall>w. obs (snd (s w)) = obs w)"

definition nondecreasing :: "(world \<Rightarrow> nat) \<Rightarrow> stmt \<Rightarrow> bool" where
  "nondecreasing obs s = (\<forall>w. obs w \<le> obs (snd (s w)))"

definition always_exits :: "stmt \<Rightarrow> bool" where
  "always_exits s = (\<forall>w. fst (s w) \<noteq> None)"


text \<open>
  What the engine store says about an object: its tracked state and its properties.
  \<open>all_ok\<close> is an engine that grants every request; \<open>playing_world\<close> is the world
  with a built video pipeline that has been asked to play.
\<close>

definition state_of :: "world \<Rightarrow> handle option \<Rightarrow> GstState option" where
  "state_of w e =
     (case e of None \<Rightarrow> None
      | Some x \<Rightarrow> if x < length (objects w) then Some (target (objects w ! x)) else None)"


definition all_ok :: env where
  "all_ok = \<lparr> char_signed = False, make_ok = (\<lambda>f. True), pipeline_ok = True,
      parse_error = None, parse_partial = False, link_ok = (\<lambda>a b. True),
      state_ret = (\<lambda>e s. GST_STATE_CHANGE_SUCCESS), static_pad = (\<lambda>e n. True),
      pad_link_ok = (\<lambda>a b. True), java_throws = False, attach_ok = True \<rparr>"


definition playing_world :: world where
  "playing_world = world0\<lparr>pipeline := Some 0, first_time_video := False, video_running := True,
     objects := [(new_object ''pipeline'' (Some ''pipeline''))\<lparr>target := GST_STATE_PLAYING\<rparr>]\<rparr>"


definition video_build :: "env \<Rightarrow> stmt" where
  "video_build env = block [video_make env, video_link env, exec (\<lambda>w. w\<lparr>first_time_video := False\<rparr>)]"

definition video_play :: "env \<Rightarrow> cchar list \<Rightarrow> stmt" where
  "video_play env arg = block [
     exec (\<lambda>w. g_object_set (udpsink w) ''port'' (G_int 5000) w),
     exec (\<lambda>w. g_object_set (udpsink w) ''host''
                  (G_string (sprintf_d4 (char_to_int env (arg ! 0)) (char_to_int env (arg ! 1))
                                        (char_to_int env (arg ! 2)) (char_to_int env (arg ! 3)))) w),
     if_call (\<lambda>w. case gst_element_set_state env (pipeline w) GST_STATE_PLAYING w of
                     (r, w') \<Rightarrow> (r \<noteq> GST_STATE_CHANGE_FAILURE, w'))
       (exec (g_print ''Video pipeline state set to playing: OK\<newline>''))
       (block [exec (gst_debug ''Failed to start up video pipeline!\<newline>''), return (- 1)]),
     exec (\<lambda>w. w\<lparr>video_running := True\<rparr>),
     return 0
   ]"

definition video_stages_ok :: "env \<Rightarrow> bool" where
  "video_stages_ok env =
     (make_ok env ''ahcsrc'' \<and> pipeline_ok env \<and> make_ok env ''queue'' \<and>
      make_ok env ''capsfilter'' \<and> make_ok env ''videoconvert'' \<and>
      make_ok env ''openh264enc'' \<and> make_ok env ''udpsink'')"

datatype link_spec =
  Link (src: "world \<Rightarrow> handle option") (dst: "world \<Rightarrow> handle option") (fail_msg: string) (ok_msg: string)

definition video_links :: "link_spec list" where
  "video_links =
     [Link camera queue
        ''Failed to link ahcsrc camera with queue!\<newline>'' ''Linked ahcsrc camera with queue: OK\<newline>'',
      Link queue capsfilter
        ''Failed to link queue with capsfilter!\<newline>'' ''Linked queue with capsfilter: OK\<newline>'',
      Link capsfilter videoconvert
        ''Failed to link capsfilter with converter!\<newline>'' ''Linked capsfilter with converter: OK\<newline>'',
      Link videoconvert encoder
        ''Failed to link converter with encoder!\<newline>'' ''Linked converter with encoder: OK\<newline>'',
      Link encoder udpsink
        ''Failed to link encoder with UDP sink!\<newline>'' ''Linked encoder with UDP sink: OK\<newline>'']"

definition audio_links :: "link_spec list" where
  "audio_links =
     [Link audiosource audioconvert
        ''Failed to link audio source with audioconvert!\<newline>''
        ''Linked audio source with audioconvert: OK\<newline>'',
      Link audioconvert speexenc
        ''Failed to link audioconvert with speexenc!\<newline>''
        ''Linked audioconvert with speexenc: OK\<newline>'',
      Link speexenc audioudpsink
        ''Failed to link speexenc with audioudpsink!\<newline>''
        ''Linked speexenc with audioudpsink: OK\<newline>'']"

definition link_chain :: "env \<Rightarrow> link_spec list \<Rightarrow> stmt" where
  "link_chain env ls = block (map (\<lambda>l. link_or_fail env (src l) (dst l) (fail_msg l) (ok_msg l)) ls)"

definition link_accepted :: "env \<Rightarrow> world \<Rightarrow> link_spec \<Rightarrow> bool" where
  "link_accepted env w l = link_answer env (src l w) (dst l w)"

definition reads_handles_only :: "link_spec \<Rightarrow> bool" where
  "reads_handles_only l =
     (\<forall>w ls cs. src l (w\<lparr>links := ls, calls := cs\<rparr>) = src l w \<and>
                dst l (w\<lparr>links := ls, calls := cs\<rparr>) = dst l w)"

definition linked_calls :: "world \<Rightarrow> link_spec list \<Rightarrow> call list" where
  "linked_calls w ls = concat (map (\<lambda>l. [Element_link (src l w) (dst l w) True, G_print (ok_msg l)]) ls)"

definition linked_pairs :: "world \<Rightarrow> link_spec list \<Rightarrow> (handle \<times> handle) list" where
  "linked_pairs w ls = map (\<lambda>l. (the (src l w), the (dst l w))) ls"

definition audio_build :: "env \<Rightarrow> stmt" where
  "audio_build env = block [audio_make env, audio_link env, exec (\<lambda>w. w\<lparr>first_time_audio := False\<rparr>)]"

definition audio_play :: "env \<Rightarrow> cchar list \<Rightarrow> stmt" where
  "audio_play env arg = block [
     exec (\<lambda>w. g_object_set (audioudpsink w) ''host''
                  (G_string (sprintf_d4 (char_to_int env (arg ! 0)) (char_to_int env (arg ! 1))
                                        (char_to_int env (arg ! 2)) (char_to_int env (arg ! 3)))) w),
     exec (\<lambda>w. g_object_set (audioudpsink w) ''port'' (G_int 5001) w),
     if_call (\<lambda>w. case gst_element_set_state env (pipeline_audio w) GST_STATE_PLAYING w of
                     (r, w') \<Rightarrow> (r \<noteq> GST_STATE_CHANGE_FAILURE, w'))
       (block [exec (g_print ''GO: Audio pipeline state set to playing.\<newline>''), return 1])
       (block [exec (g_print ''NOGO: Failed to start up audio pipeline!\<newline>''), return (- 1)])
   ]"

definition link_refused :: "handle \<Rightarrow> handle \<Rightarrow> env" where
  "link_refused a b = all_ok\<lparr>link_ok := (\<lambda>x y. (x, y) \<noteq> (a, b))\<rparr>"

definition video_vars where
  "video_vars w = (first_time_video w, video_running w, pipeline w, camera w, queue w,
     capsfilter w, videoconvert w, encoder w, udpsink w)"

definition audio_vars where
  "audio_vars w = (first_time_audio w, pipeline_audio w, audiosource w, audioconvert w,
     speexenc w, audioudpsink w)"

definition session_vars where
  "session_vars w = (native_custom_data w, gst_app_thread w, current_jni_env w, watches w,
     connections w)"

definition is_controller_call :: "call \<Rightarrow> bool" where
  "is_controller_call c =
     (case c of Call_setMessage m \<Rightarrow> True | Call_onGStreamerInitialized \<Rightarrow> True | _ \<Rightarrow> False)"

definition controller_calls :: "world \<Rightarrow> call list" where
  "controller_calls w = filter is_controller_call (calls w)"

definition outside_video where
  "outside_video w = (audio_vars w, session_vars w, controller_calls w, pad_links w)"

definition outside_audio where
  "outside_audio w = (video_vars w, session_vars w, controller_calls w, pad_links w)"

definition video_built :: "world \<Rightarrow> bool" where
  "video_built w =
     (\<not> first_time_video w \<and>
      (\<exists>u p. udpsink w = Some u \<and> u < length (objects w) \<and>
             pipeline w = Some p \<and> p < length (objects w)))"

definition audio_built :: "world \<Rightarrow> bool" where
  "audio_built w =
     (\<not> first_time_audio w \<and>
      (\<exists>u p. audioudpsink w = Some u \<and> u < length (objects w) \<and>
             pipeline_audio w = Some p \<and> p < length (objects w)))"



definition is_state_request :: "call \<Rightarrow> bool" where
  "is_state_request c = (case c of Set_state e s r \<Rightarrow> True | _ \<Rightarrow> False)"

definition state_requests :: "world \<Rightarrow> call list" where
  "state_requests w = filter is_state_request (calls w)"

definition video_host :: "env \<Rightarrow> cchar list \<Rightarrow> gvalue" where
  "video_host env arg =
     G_string (sprintf_d4 (char_to_int env (arg ! 0)) (char_to_int env (arg ! 1))
                          (char_to_int env (arg ! 2)) (char_to_int env (arg ! 3)))"

definition video_wf :: "world \<Rightarrow> bool" where
  "video_wf w = (first_time_video w \<or> video_built w)"

definition audio_wf :: "world \<Rightarrow> bool" where
  "audio_wf w = (first_time_audio w \<or> audio_built w)"

definition program_vars where
  "program_vars w = (video_vars w, audio_vars w, links w)"

definition ok_reports :: "world \<Rightarrow> call list" where
  "ok_reports w = filter (\<lambda>c. c = G_print ''stream_start: OK\<newline>'') (calls w)"



definition is_build_call :: "call \<Rightarrow> bool" where
  "is_build_call c =
     (case c of Factory_make f n r \<Rightarrow> True | Pipeline_new n r \<Rightarrow> True
      | Bin_add_many b es \<Rightarrow> True | Element_link a b r \<Rightarrow> True | _ \<Rightarrow> False)"

definition build_calls :: "world \<Rightarrow> call list" where
  "build_calls w = filter is_build_call (calls w)"


definition requested :: "call \<Rightarrow> string list" where
  "requested c = (case c of Factory_make f n r \<Rightarrow> [f] | Pipeline_new n r \<Rightarrow> [n] | _ \<Rightarrow> [])"

definition requested_stages :: "world \<Rightarrow> string list" where
  "requested_stages w = concat (map requested (calls w))"

definition audio_stages_ok :: "env \<Rightarrow> bool" where
  "audio_stages_ok env =
     (pipeline_ok env \<and> make_ok env ''audioconvert'' \<and> make_ok env ''speexenc'' \<and>
      make_ok env ''udpsink'' \<and> (make_ok env ''openslessrc'' \<or> make_ok env ''audiotestsrc''))"

definition no_primary_source :: env where
  "no_primary_source = all_ok\<lparr>make_ok := (\<lambda>f. f \<noteq> ''openslessrc'')\<rparr>"

definition no_source_no_sink :: env where
  "no_source_no_sink = all_ok\<lparr>make_ok := (\<lambda>f. f \<noteq> ''openslessrc'' \<and> f \<noteq> ''udpsink'')\<rparr>"

definition no_source_at_all :: env where
  "no_source_at_all = all_ok\<lparr>make_ok := (\<lambda>f. f \<noteq> ''openslessrc'' \<and> f \<noteq> ''audiotestsrc'')\<rparr>"











definition notifications :: "world \<Rightarrow> nat" where
  "notifications w = length (filter (\<lambda>c. c = Call_onGStreamerInitialized) (calls w))"

definition is_finalize_call :: "call \<Rightarrow> bool" where
  "is_finalize_call c =
     (case c of Main_loop_quit b \<Rightarrow> True | Pthread_join \<Rightarrow> True | Delete_global_ref \<Rightarrow> True
      | G_free_CustomData \<Rightarrow> True | Set_long_field b \<Rightarrow> \<not> b | _ \<Rightarrow> False)"

definition finalize_calls :: "world \<Rightarrow> call list" where
  "finalize_calls w = filter is_finalize_call (calls w)"

definition handlers_known :: "world \<Rightarrow> bool" where
  "handlers_known w =
     list_all (\<lambda>(x, n, h). h = Error_cb \<or> h = State_changed_cb) (connections w)"

definition watches_session :: "world \<Rightarrow> bool" where
  "watches_session w = list_all (\<lambda>x. data_pipeline w = Some x) (watches w)"

definition calm where
  "calm w = (program_vars w, length (objects w), map parent (objects w), map factory (objects w),
     native_custom_data w, gst_app_thread w, watches w, connections w, notifications w,
     finalize_calls w, build_calls w)"

definition app_function_setup :: "env \<Rightarrow> stmt list" where
  "app_function_setup env = [
     exec (gst_debug ''Creating pipeline in CustomData''),
     exec (\<lambda>w. emit Main_context_new (upd_data (\<lambda>d. d\<lparr>main_context := True\<rparr>) w)),
     exec (\<lambda>w. case gst_parse_launch env
                       ''audiotestsrc ! audioconvert ! audioresample ! autoaudiosink'' w of
                  (p, w') \<Rightarrow> upd_data (\<lambda>d. d\<lparr>cd_pipeline := p\<rparr>) w'),
     if_then (\<lambda>w. parse_error env \<noteq> None)
       (block [set_ui_message env (''Unable to build pipeline: '' @ the (parse_error env)),
               return 0])]"

definition app_function_watch :: "env \<Rightarrow> stmt list" where
  "app_function_watch env = [
     exec (\<lambda>w. bus_add_watch (data_pipeline w) w),
     exec (\<lambda>w. g_signal_connect (data_pipeline w) ''message::error'' Error_cb w),
     exec (\<lambda>w. g_signal_connect (data_pipeline w) ''message::state-changed'' State_changed_cb w),
     exec (gst_debug ''Entering main loop...''),
     exec (\<lambda>w. emit Main_loop_new (upd_data (\<lambda>d. d\<lparr>main_loop := Some (GMainLoop False)\<rparr>) w))]"

definition app_function_notify :: "env \<Rightarrow> stmt list" where
  "app_function_notify env = [
     check_initialization_complete env,
     exec (upd_data (\<lambda>d. d\<lparr>main_loop := Some (GMainLoop True)\<rparr>))]"

definition quiet where
  "quiet w = (program_vars w, pad_links w, finalize_calls w, gst_app_thread w, notifications w)"

definition session_watch :: "world \<Rightarrow> handle list" where
  "session_watch w = (case data_pipeline w of None \<Rightarrow> [] | Some p \<Rightarrow> [p])"

definition session_handlers :: "world \<Rightarrow> (handle \<times> string \<times> handler) list" where
  "session_handlers w =
     (case data_pipeline w of None \<Rightarrow> []
      | Some p \<Rightarrow> [(p, ''message::error'', Error_cb), (p, ''message::state-changed'', State_changed_cb)])"

definition budget :: "world \<Rightarrow> nat" where
  "budget w = notifications w + (if gst_app_thread w = Created then 1 else 0)"

definition session_inv :: "world \<Rightarrow> bool" where
  "session_inv w =
     (handlers_known w \<and> watches_session w \<and> (gst_app_thread w = In_main_loop \<or> watches w = []))"

definition thread_gone :: "world \<Rightarrow> bool" where
  "thread_gone w = (gst_app_thread w = Exited \<or> gst_app_thread w = No_thread)"

definition session_side where
  "session_side w = (session_vars w, controller_calls w, pad_links w)"



section \<open>Reasoning about statements\<close>

lemmas ctl = exec_def return_def g_assert_def if_then_def if_call_def
lemmas eng = emit_def g_print_def gst_debug_def gst_error_def gst_element_factory_make_def
  gst_pipeline_new_def gst_element_link_def g_object_set_def gst_element_set_state_def
  gst_bin_add_many_def

subsection \<open>Exits\<close>

lemma exits_exec: "exits_in E (exec f)"
  by (simp add: exits_in_def exec_def)

lemma exits_return: "Return v \<in> E \<Longrightarrow> exits_in E (return v)"
  by (simp add: exits_in_def return_def)

lemma exits_assert: "Abort \<in> E \<Longrightarrow> exits_in E (g_assert c)"
  by (simp add: exits_in_def g_assert_def)

lemma exits_if_then: "exits_in E s \<Longrightarrow> exits_in E (if_then c s)"
  by (simp add: exits_in_def if_then_def)

lemma exits_if_call: "exits_in E s1 \<Longrightarrow> exits_in E s2 \<Longrightarrow> exits_in E (if_call c s1 s2)"
  by (simp add: exits_in_def if_call_def split: prod.splits)

lemma exits_block_nil: "exits_in E (block [])"
  by (simp add: exits_in_def)

lemma exits_block_cons:
  "exits_in E s \<Longrightarrow> exits_in E (block ss) \<Longrightarrow> exits_in E (block (s # ss))"
  unfolding exits_in_def
proof
  fix w
  assume s: "\<forall>w. case fst (s w) of None \<Rightarrow> True | Some e \<Rightarrow> e \<in> E"
    and r: "\<forall>w. case fst (block ss w) of None \<Rightarrow> True | Some e \<Rightarrow> e \<in> E"
  show "case fst (block (s # ss) w) of None \<Rightarrow> True | Some e \<Rightarrow> e \<in> E"
    using s [rule_format, of w] r [rule_format, of "snd (s w)"]
    by (cases "s w") (auto split: option.splits)
qed

lemma exits_link_or_fail: "Return (- 1) \<in> E \<Longrightarrow> exits_in E (link_or_fail env a b f k)"
  unfolding link_or_fail_def
  by (intro exits_if_call exits_block_cons exits_block_nil exits_exec exits_return)

lemmas exits_intros = exits_block_cons exits_block_nil exits_exec exits_return exits_assert
  exits_if_then exits_if_call exits_link_or_fail

lemma video_make_exits: "exits_in {Abort} (video_make env)"
  unfolding video_make_def by (intro exits_intros) simp_all

lemma video_link_exits: "exits_in {Return (- 1)} (video_link env)"
  unfolding video_link_def by (intro exits_intros) simp_all

lemma exits_mono: "exits_in E s \<Longrightarrow> E \<subseteq> E' \<Longrightarrow> exits_in E' s"
  unfolding exits_in_def by (auto split: option.splits)

lemma video_start_exits: "exits_in {Abort, Return (- 1), Return 0} (video_start env arg)"
  unfolding video_start_def
  by (intro exits_intros exits_mono [OF video_make_exits] exits_mono [OF video_link_exits]) simp_all

subsection \<open>Frames\<close>

lemma unchanged_exec: "(\<And>w. obs (f w) = obs w) \<Longrightarrow> unchanged obs (exec f)"
  by (simp add: unchanged_def exec_def)

lemma unchanged_return: "unchanged obs (return v)"
  by (simp add: unchanged_def return_def)

lemma unchanged_assert: "unchanged obs (g_assert c)"
  by (simp add: unchanged_def g_assert_def)

lemma unchanged_if_then: "unchanged obs s \<Longrightarrow> unchanged obs (if_then c s)"
  by (simp add: unchanged_def if_then_def)

lemma unchanged_if_call:
  "(\<And>w. obs (snd (c w)) = obs w) \<Longrightarrow> unchanged obs s1 \<Longrightarrow> unchanged obs s2
   \<Longrightarrow> unchanged obs (if_call c s1 s2)"
  by (simp add: unchanged_def if_call_def split: prod.splits) (metis snd_conv)

lemma unchanged_block_nil: "unchanged obs (block [])"
  by (simp add: unchanged_def)

lemma unchanged_block_cons:
  assumes "unchanged obs s" and "unchanged obs (block ss)"
  shows "unchanged obs (block (s # ss))"
  unfolding unchanged_def
proof
  fix w
  show "obs (snd (block (s # ss) w)) = obs w"
    using assms(1) [unfolded unchanged_def, rule_format, of w]
      assms(2) [unfolded unchanged_def, rule_format, of "snd (s w)"]
    by (cases "s w") (auto split: option.splits)
qed

lemma snd_case_prod_fst [simp]: "snd (case p of (r, w') \<Rightarrow> (f r, w')) = snd p"
  by (cases p) simp

lemma fst_case_prod_fst [simp]: "fst (case p of (r, w') \<Rightarrow> (f r, w')) = f (fst p)"
  by (cases p) simp

lemma unchanged_link_or_fail:
  "(\<And>w x y. obs (snd (gst_element_link env x y w)) = obs w) \<Longrightarrow>
   (\<And>w c. obs (emit c w) = obs w) \<Longrightarrow> unchanged obs (link_or_fail env a b f k)"
  unfolding link_or_fail_def
  by (intro unchanged_if_call unchanged_block_cons unchanged_block_nil unchanged_exec
      unchanged_return) (simp_all add: g_print_def gst_debug_def)

lemmas unchanged_intros = unchanged_block_cons unchanged_block_nil unchanged_exec
  unchanged_return unchanged_assert unchanged_if_then unchanged_if_call

lemma unchangedD: "unchanged obs s \<Longrightarrow> obs (snd (s w)) = obs w"
  by (simp add: unchanged_def)

lemma nondecreasing_exec: "(\<And>w. obs w \<le> obs (f w)) \<Longrightarrow> nondecreasing obs (exec f)"
  by (simp add: nondecreasing_def exec_def)

lemma nondecreasing_return: "nondecreasing obs (return v)"
  by (simp add: nondecreasing_def return_def)

lemma nondecreasing_assert: "nondecreasing obs (g_assert c)"
  by (simp add: nondecreasing_def g_assert_def)

lemma nondecreasing_if_then: "nondecreasing obs s \<Longrightarrow> nondecreasing obs (if_then c s)"
  by (simp add: nondecreasing_def if_then_def)

lemma nondecreasing_if_call:
  assumes "\<And>w. obs w \<le> obs (snd (c w))" "nondecreasing obs s1" "nondecreasing obs s2"
  shows "nondecreasing obs (if_call c s1 s2)"
  unfolding nondecreasing_def
proof
  fix w
  have 1: "obs w \<le> obs (snd (c w))" by (rule assms(1))
  have 2: "obs (snd (c w)) \<le> obs (snd (s1 (snd (c w))))"
    and 3: "obs (snd (c w)) \<le> obs (snd (s2 (snd (c w))))"
    using assms(2,3) by (simp_all add: nondecreasing_def)
  show "obs w \<le> obs (snd (if_call c s1 s2 w))"
    using 1 2 3 by (cases "c w") (auto simp: if_call_def)
qed

lemma nondecreasing_block_nil: "nondecreasing obs (block [])"
  by (simp add: nondecreasing_def)

lemma nondecreasing_block_cons:
  assumes "nondecreasing obs s" and "nondecreasing obs (block ss)"
  shows "nondecreasing obs (block (s # ss))"
  unfolding nondecreasing_def
proof
  fix w
  have 1: "obs w \<le> obs (snd (s w))"
    using assms(1) by (simp add: nondecreasing_def)
  have 2: "obs (snd (s w)) \<le> obs (snd (block ss (snd (s w))))"
    using assms(2) by (simp add: nondecreasing_def)
  show "obs w \<le> obs (snd (block (s # ss) w))"
    using 1 2 by (cases "s w") (auto split: option.splits)
qed

lemmas nondecreasing_intros = nondecreasing_block_cons nondecreasing_block_nil
  nondecreasing_exec nondecreasing_return nondecreasing_assert nondecreasing_if_then
  nondecreasing_if_call

lemma nondecreasingD: "nondecreasing obs s \<Longrightarrow> obs w \<le> obs (snd (s w))"
  by (simp add: nondecreasing_def)

subsection \<open>Functions that end in a return\<close>

lemma always_exits_return: "always_exits (return v)"
  by (simp add: always_exits_def return_def)

lemma always_exits_block_last: "always_exits s \<Longrightarrow> always_exits (block [s])"
  unfolding always_exits_def
proof
  fix w
  assume a: "\<forall>w. fst (s w) \<noteq> None"
  show "fst (block [s] w) \<noteq> None"
    using a [rule_format, of w] by (cases "s w") (auto split: option.splits)
qed

lemma always_exits_block_cons: "always_exits (block (s' # ss)) \<Longrightarrow> always_exits (block (s # s' # ss))"
  unfolding always_exits_def
proof
  fix w
  assume a: "\<forall>w. fst (block (s' # ss) w) \<noteq> None"
  show "fst (block (s # s' # ss) w) \<noteq> None"
    using a [rule_format, of "snd (s w)"]
    by (cases "s w"; cases "fst (s w)") (auto simp del: block.simps(2) simp add: block.simps(2) [of s])
qed

lemma always_exits_if_call: "always_exits s1 \<Longrightarrow> always_exits s2 \<Longrightarrow> always_exits (if_call c s1 s2)"
  by (simp add: always_exits_def if_call_def split: prod.splits)

lemmas always_exits_intros = always_exits_block_cons always_exits_block_last always_exits_return
  always_exits_if_call

lemma video_start_returns: "always_exits (video_start env arg)"
  unfolding video_start_def by (intro always_exits_intros)

lemma video_stop_returns: "always_exits (video_stop env)"
  unfolding video_stop_def by (intro always_exits_intros)

section \<open>Stopping a pipeline\<close>

lemma state_of_set_target:
  "state_of (w\<lparr>objects := set_target e s (objects w)\<rparr>) e' =
     (if e' = e \<and> state_of w e \<noteq> None then Some s else state_of w e')"
  by (auto simp: state_of_def set_target_def split: option.splits)

lemma state_of_objects: "objects w' = objects w \<Longrightarrow> state_of w' e = state_of w e"
  by (cases e) (simp_all add: state_of_def)


lemma state_of_calls [simp]: "state_of (w\<lparr>calls := c\<rparr>) e = state_of w e"
  by (rule state_of_objects) simp

lemma state_of_video_running [simp]: "state_of (w\<lparr>video_running := c\<rparr>) e = state_of w e"
  by (rule state_of_objects) simp

lemma video_stop_eval:
  "video_stop env w =
     (Some (Return 1),
      w\<lparr>objects := set_target (pipeline w) GST_STATE_NULL
                      (set_target (pipeline w) GST_STATE_PAUSED (objects w)),
         calls := calls w @
           [Set_state (pipeline w) GST_STATE_PAUSED (set_state_answer env (pipeline w) GST_STATE_PAUSED),
            G_print ''Video pipeline: paused\<newline>'',
            Set_state (pipeline w) GST_STATE_NULL (set_state_answer env (pipeline w) GST_STATE_NULL),
            G_print ''Video pipeline: null\<newline>''],
         video_running := False\<rparr>)"
  by (simp add: video_stop_def ctl eng)

lemma audio_stop_eval:
  "audio_stop env w =
     (Some (Return 1),
      w\<lparr>objects := set_target (pipeline_audio w) GST_STATE_NULL
                      (set_target (pipeline_audio w) GST_STATE_PAUSED (objects w)),
         calls := calls w @
           [Set_state (pipeline_audio w) GST_STATE_PAUSED
              (set_state_answer env (pipeline_audio w) GST_STATE_PAUSED),
            G_print ''Audio pipeline: paused\<newline>'',
            Set_state (pipeline_audio w) GST_STATE_NULL
              (set_state_answer env (pipeline_audio w) GST_STATE_NULL),
            G_print ''Audio pipeline: null\<newline>'']\<rparr>)"
  by (simp add: audio_stop_def ctl eng)

lemma state_of_two_targets:
  "state_of (w\<lparr>objects := set_target e s2 (set_target e s1 (objects w))\<rparr>) e =
     (if state_of w e = None then None else Some s2)"
  by (auto simp: state_of_def set_target_def split: option.splits)


lemma length_set_parent [simp]: "length (set_parent b e os) = length os"
  by (simp add: set_parent_def)

lemma length_add_children [simp]: "length (add_children b es os) = length os"
proof (cases b)
  case None
  then show ?thesis by (simp add: add_children_def)
next
  case (Some p)
  have "length (foldl (\<lambda>os e. set_parent p e os) os xs) = length os" for xs
    by (induction xs arbitrary: os) simp_all
  then show ?thesis using Some by (simp add: add_children_def)
qed

lemma length_set_prop [simp]: "length (set_prop obj k v os) = length os"
  by (simp add: set_prop_def split: option.splits)

lemma length_set_target [simp]: "length (set_target e s os) = length os"
  by (simp add: set_target_def split: option.splits)

lemma video_start_split:
  "video_start env arg w =
     (if first_time_video w
      then (case video_build env w of (None, w') \<Rightarrow> video_play env arg w'
            | (Some e, w') \<Rightarrow> (Some e, w'))
      else video_play env arg w)"
  by (auto simp: video_start_def video_build_def video_play_def if_then_def
      split: prod.splits option.splits)

lemma video_build_split:
  "video_build env w =
     (case video_make env w of
        (None, w1) \<Rightarrow>
          (case video_link env w1 of
             (None, w2) \<Rightarrow> (None, w2\<lparr>first_time_video := False\<rparr>)
           | (Some e, w2) \<Rightarrow> (Some e, w2))
      | (Some e, w1) \<Rightarrow> (Some e, w1))"
  by (simp add: video_build_def exec_def split: prod.splits option.splits)

lemma video_play_eval:
  "video_play env arg w =
     (let host = G_string (sprintf_d4 (char_to_int env (arg ! 0)) (char_to_int env (arg ! 1))
                             (char_to_int env (arg ! 2)) (char_to_int env (arg ! 3)));
          a = set_state_answer env (pipeline w) GST_STATE_PLAYING;
          os = set_target (pipeline w) GST_STATE_PLAYING
                 (set_prop (udpsink w) ''host'' host
                    (set_prop (udpsink w) ''port'' (G_int 5000) (objects w)));
          cs = calls w @ [Object_set (udpsink w) ''port'' (G_int 5000),
                          Object_set (udpsink w) ''host'' host,
                          Set_state (pipeline w) GST_STATE_PLAYING a]
      in if a \<noteq> GST_STATE_CHANGE_FAILURE
         then (Some (Return 0),
               w\<lparr>objects := os,
                  calls := cs @ [G_print ''Video pipeline state set to playing: OK\<newline>''],
                  video_running := True\<rparr>)
         else (Some (Return (- 1)),
               w\<lparr>objects := os,
                  calls := cs @ [GST_DEBUG ''Failed to start up video pipeline!\<newline>'']\<rparr>))"
  by (simp add: video_play_def ctl eng Let_def)

lemma video_make_ok:
  assumes "video_stages_ok env"
  shows "fst (video_make env w) = None"
    and "camera (snd (video_make env w)) = Some (length (objects w))"
    and "pipeline (snd (video_make env w)) = Some (length (objects w) + 1)"
    and "queue (snd (video_make env w)) = Some (length (objects w) + 2)"
    and "capsfilter (snd (video_make env w)) = Some (length (objects w) + 3)"
    and "videoconvert (snd (video_make env w)) = Some (length (objects w) + 4)"
    and "encoder (snd (video_make env w)) = Some (length (objects w) + 5)"
    and "udpsink (snd (video_make env w)) = Some (length (objects w) + 6)"
    and "length (objects (snd (video_make env w))) = length (objects w) + 7"
  using assms unfolding video_stages_ok_def
  by (simp_all add: video_make_def ctl eng)

lemma video_make_falls:
  assumes "fst (video_make env w) = None"
  shows "video_stages_ok env"
proof (rule ccontr)
  assume "\<not> video_stages_ok env"
  then consider
      (1) "\<not> make_ok env ''ahcsrc''"
    | (2) "make_ok env ''ahcsrc''" "\<not> pipeline_ok env"
    | (3) "make_ok env ''ahcsrc''" "pipeline_ok env" "\<not> make_ok env ''queue''"
    | (4) "make_ok env ''ahcsrc''" "pipeline_ok env" "make_ok env ''queue''"
          "\<not> make_ok env ''capsfilter''"
    | (5) "make_ok env ''ahcsrc''" "pipeline_ok env" "make_ok env ''queue''"
          "make_ok env ''capsfilter''" "\<not> make_ok env ''videoconvert''"
    | (6) "make_ok env ''ahcsrc''" "pipeline_ok env" "make_ok env ''queue''"
          "make_ok env ''capsfilter''" "make_ok env ''videoconvert''"
          "\<not> make_ok env ''openh264enc''"
    | (7) "make_ok env ''ahcsrc''" "pipeline_ok env" "make_ok env ''queue''"
          "make_ok env ''capsfilter''" "make_ok env ''videoconvert''"
          "make_ok env ''openh264enc''" "\<not> make_ok env ''udpsink''"
    unfolding video_stages_ok_def by blast
  then have "fst (video_make env w) = Some Abort"
  proof cases
    case 1 then show ?thesis by (simp add: video_make_def ctl eng)
  next
    case 2 then show ?thesis by (simp add: video_make_def ctl eng)
  next
    case 3 then show ?thesis by (simp add: video_make_def ctl eng)
  next
    case 4 then show ?thesis by (simp add: video_make_def ctl eng)
  next
    case 5 then show ?thesis by (simp add: video_make_def ctl eng)
  next
    case 6 then show ?thesis by (simp add: video_make_def ctl eng)
  next
    case 7 then show ?thesis by (simp add: video_make_def ctl eng)
  qed
  with assms show False by simp
qed

lemma video_link_chain: "video_link env = link_chain env video_links"
  by (simp add: video_link_def link_chain_def video_links_def)

lemma audio_link_chain: "audio_link env = link_chain env audio_links"
  by (simp add: audio_link_def link_chain_def audio_links_def)

lemma link_or_fail_eval:
  "link_or_fail env a b f k w =
     (if link_answer env (a w) (b w)
      then (None, w\<lparr>links := links w @ [(the (a w), the (b w))],
                     calls := calls w @ [Element_link (a w) (b w) True, G_print k]\<rparr>)
      else (Some (Return (- 1)),
            w\<lparr>calls := calls w @ [Element_link (a w) (b w) False, GST_DEBUG f]\<rparr>))"
  by (simp add: link_or_fail_def ctl eng)

lemma link_chain_nil [simp]: "link_chain env [] w = (None, w)"
  by (simp add: link_chain_def)

lemma link_chain_cons:
  "link_chain env (l # ls) w =
     (if link_accepted env w l
      then link_chain env ls
             (w\<lparr>links := links w @ [(the (src l w), the (dst l w))],
                calls := calls w @ [Element_link (src l w) (dst l w) True, G_print (ok_msg l)]\<rparr>)
      else (Some (Return (- 1)),
            w\<lparr>calls := calls w @ [Element_link (src l w) (dst l w) False, GST_DEBUG (fail_msg l)]\<rparr>))"
  by (simp add: link_chain_def link_or_fail_eval link_accepted_def)

lemma link_accepted_frame:
  "reads_handles_only l \<Longrightarrow> link_accepted env (w\<lparr>links := ls, calls := cs\<rparr>) l = link_accepted env w l"
  by (simp add: link_accepted_def reads_handles_only_def)

lemma link_chain_all_accepted:
  assumes "\<forall>l\<in>set ls. reads_handles_only l" and "\<forall>l\<in>set ls. link_accepted env w l"
  shows "link_chain env ls w =
           (None, w\<lparr>links := links w @ linked_pairs w ls, calls := calls w @ linked_calls w ls\<rparr>)"
  using assms
proof (induction ls arbitrary: w)
  case Nil
  show ?case by (simp add: linked_pairs_def linked_calls_def)
next
  case (Cons l ls)
  let ?w1 = "w\<lparr>links := links w @ [(the (src l w), the (dst l w))],
               calls := calls w @ [Element_link (src l w) (dst l w) True, G_print (ok_msg l)]\<rparr>"
  have ro: "\<forall>l\<in>set ls. reads_handles_only l" using Cons.prems(1) by simp
  have acc: "\<forall>l'\<in>set ls. link_accepted env ?w1 l'"
    using Cons.prems ro by (simp add: link_accepted_frame)
  have same: "\<And>l'. l' \<in> set ls \<Longrightarrow> src l' ?w1 = src l' w \<and> dst l' ?w1 = dst l' w"
    using ro by (simp add: reads_handles_only_def)
  have pairs: "linked_pairs ?w1 ls = linked_pairs w ls"
    unfolding linked_pairs_def by (rule map_cong) (simp_all add: same)
  have cs: "linked_calls ?w1 ls = linked_calls w ls"
    unfolding linked_calls_def by (rule arg_cong [where f = concat], rule map_cong) (simp_all add: same)
  have "link_chain env (l # ls) w = link_chain env ls ?w1"
    using Cons.prems(2) by (simp add: link_chain_cons)
  also have "\<dots> = (None, ?w1\<lparr>links := links ?w1 @ linked_pairs ?w1 ls,
                                calls := calls ?w1 @ linked_calls ?w1 ls\<rparr>)"
    by (rule Cons.IH [OF ro acc])
  also have "\<dots> = (None, w\<lparr>links := links w @ linked_pairs w (l # ls),
                             calls := calls w @ linked_calls w (l # ls)\<rparr>)"
    by (simp add: pairs cs) (simp add: linked_pairs_def linked_calls_def)
  finally show ?case .
qed

lemma link_chain_first_failure:
  assumes ro: "\<forall>l\<in>set ls. reads_handles_only l"
    and k: "k < length ls"
    and before: "\<forall>j<k. link_accepted env w (ls ! j)"
    and fails: "\<not> link_accepted env w (ls ! k)"
  shows "link_chain env ls w =
           (Some (Return (- 1)),
            w\<lparr>links := links w @ linked_pairs w (take k ls),
               calls := calls w @ linked_calls w (take k ls) @
                        [Element_link (src (ls ! k) w) (dst (ls ! k) w) False,
                         GST_DEBUG (fail_msg (ls ! k))]\<rparr>)"
proof -
  have split: "ls = take k ls @ (ls ! k) # drop (Suc k) ls"
    using k by (simp add: id_take_nth_drop)
  have ro1: "\<forall>l\<in>set (take k ls). reads_handles_only l"
    using ro by (meson in_set_takeD)
  have acc: "\<forall>l\<in>set (take k ls). link_accepted env w l"
  proof
    fix l assume "l \<in> set (take k ls)"
    then obtain j where "j < length (take k ls)" "take k ls ! j = l"
      by (meson in_set_conv_nth)
    then show "link_accepted env w l" using before k by auto
  qed
  let ?w1 = "w\<lparr>links := links w @ linked_pairs w (take k ls),
               calls := calls w @ linked_calls w (take k ls)\<rparr>"
  have pre: "link_chain env (take k ls) w = (None, ?w1)"
    by (rule link_chain_all_accepted [OF ro1 acc])
  have app: "link_chain env (xs @ ys) v =
      (case link_chain env xs v of (None, v') \<Rightarrow> link_chain env ys v' | (Some e, v') \<Rightarrow> (Some e, v'))"
    for xs ys v
    by (induction xs arbitrary: v) (auto simp: link_chain_def split: prod.splits option.splits)
  have rk: "reads_handles_only (ls ! k)" using ro k by simp
  have fails1: "\<not> link_accepted env ?w1 (ls ! k)"
    using fails rk by (simp add: link_accepted_frame)
  have same: "src (ls ! k) ?w1 = src (ls ! k) w" "dst (ls ! k) ?w1 = dst (ls ! k) w"
    using rk by (simp_all add: reads_handles_only_def)
  have "link_chain env ls w = link_chain env (take k ls @ (ls ! k) # drop (Suc k) ls) w"
    using split by simp
  also have "\<dots> = link_chain env ((ls ! k) # drop (Suc k) ls) ?w1"
    by (simp add: app pre)
  also have "\<dots> = (Some (Return (- 1)),
            ?w1\<lparr>calls := calls ?w1 @ [Element_link (src (ls ! k) ?w1) (dst (ls ! k) ?w1) False,
                                       GST_DEBUG (fail_msg (ls ! k))]\<rparr>)"
    using fails1 by (simp add: link_chain_cons)
  finally show ?thesis by (simp add: same)
qed

lemma video_links_read_handles: "\<forall>l\<in>set video_links. reads_handles_only l"
  by (simp add: video_links_def reads_handles_only_def)

lemma audio_links_read_handles: "\<forall>l\<in>set audio_links. reads_handles_only l"
  by (simp add: audio_links_def reads_handles_only_def)

lemma audio_start_split:
  "audio_start env arg w =
     (if first_time_audio w
      then (case audio_build env w of (None, w') \<Rightarrow> audio_play env arg w'
            | (Some e, w') \<Rightarrow> (Some e, w'))
      else audio_play env arg w)"
  by (auto simp: audio_start_def audio_build_def audio_play_def if_then_def
      split: prod.splits option.splits)

lemma audio_build_split:
  "audio_build env w =
     (case audio_make env w of
        (None, w1) \<Rightarrow>
          (case audio_link env w1 of
             (None, w2) \<Rightarrow> (None, w2\<lparr>first_time_audio := False\<rparr>)
           | (Some e, w2) \<Rightarrow> (Some e, w2))
      | (Some e, w1) \<Rightarrow> (Some e, w1))"
  by (simp add: audio_build_def exec_def split: prod.splits option.splits)

lemma audio_play_eval:
  "audio_play env arg w =
     (let host = G_string (sprintf_d4 (char_to_int env (arg ! 0)) (char_to_int env (arg ! 1))
                             (char_to_int env (arg ! 2)) (char_to_int env (arg ! 3)));
          a = set_state_answer env (pipeline_audio w) GST_STATE_PLAYING;
          os = set_target (pipeline_audio w) GST_STATE_PLAYING
                 (set_prop (audioudpsink w) ''port'' (G_int 5001)
                    (set_prop (audioudpsink w) ''host'' host (objects w)));
          cs = calls w @ [Object_set (audioudpsink w) ''host'' host,
                          Object_set (audioudpsink w) ''port'' (G_int 5001),
                          Set_state (pipeline_audio w) GST_STATE_PLAYING a]
      in if a \<noteq> GST_STATE_CHANGE_FAILURE
         then (Some (Return 1),
               w\<lparr>objects := os,
                  calls := cs @ [G_print ''GO: Audio pipeline state set to playing.\<newline>'']\<rparr>)
         else (Some (Return (- 1)),
               w\<lparr>objects := os,
                  calls := cs @ [G_print ''NOGO: Failed to start up audio pipeline!\<newline>'']\<rparr>))"
  by (simp add: audio_play_def ctl eng Let_def)

lemma video_start_link_exit:
  assumes "first_time_video w" "fst (video_make env w) = None"
    and "video_link env (snd (video_make env w)) = (Some e, w2)"
  shows "video_start env arg w = (Some e, w2)"
  using assms by (cases "video_make env w") (simp add: video_start_split video_build_split)

lemma audio_start_link_exit:
  assumes "first_time_audio w" "fst (audio_make env w) = None"
    and "audio_link env (snd (audio_make env w)) = (Some e, w2)"
  shows "audio_start env arg w = (Some e, w2)"
  using assms by (cases "audio_make env w") (simp add: audio_start_split audio_build_split)

lemma all_ok_stages [simp]: "video_stages_ok all_ok" "video_stages_ok (link_refused a b)"
  by (simp_all add: video_stages_ok_def all_ok_def link_refused_def)

lemma link_ok_refused [simp]: "link_ok (link_refused a b) x y = ((x, y) \<noteq> (a, b))"
  by (simp add: link_refused_def)

lemma world0_fields [simp]:
  "first_time_video world0" "first_time_audio world0" "objects world0 = []" "links world0 = []"
  "calls world0 = []" "pipeline world0 = None" "udpsink world0 = None"
  "native_custom_data world0 = None" "gst_app_thread world0 = No_thread"
  "connections world0 = []" "watches world0 = []"
  by (simp_all add: world0_def)

lemma video_make_frame:
  "unchanged outside_video (video_make env)"
  "unchanged first_time_video (video_make env)"
  "unchanged links (video_make env)"
  "nondecreasing (\<lambda>w. length (objects w)) (video_make env)"
  unfolding video_make_def
  by (intro unchanged_intros nondecreasing_intros;
      simp add: outside_video_def audio_vars_def session_vars_def controller_calls_def
        is_controller_call_def eng split: prod.splits)+

lemma link_or_fail_frame:
  "unchanged outside_video (link_or_fail env a b f k)"
  "unchanged outside_audio (link_or_fail env a b f k)"
  "unchanged video_vars (link_or_fail env a b f k)"
  "unchanged audio_vars (link_or_fail env a b f k)"
  "unchanged objects (link_or_fail env a b f k)"
  by (simp_all add: unchanged_def link_or_fail_eval outside_video_def outside_audio_def
      video_vars_def audio_vars_def session_vars_def controller_calls_def is_controller_call_def)

lemma video_link_frame:
  "unchanged outside_video (video_link env)"
  "unchanged video_vars (video_link env)"
  "unchanged objects (video_link env)"
  unfolding video_link_def
  by (intro unchanged_block_cons unchanged_block_nil link_or_fail_frame)+

lemma audio_link_frame:
  "unchanged outside_audio (audio_link env)"
  "unchanged audio_vars (audio_link env)"
  "unchanged objects (audio_link env)"
  unfolding audio_link_def
  by (intro unchanged_block_cons unchanged_block_nil link_or_fail_frame)+

lemma audio_make_frame:
  "unchanged outside_audio (audio_make env)"
  "unchanged first_time_audio (audio_make env)"
  "unchanged links (audio_make env)"
  "nondecreasing (\<lambda>w. length (objects w)) (audio_make env)"
  unfolding audio_make_def
  by (intro unchanged_intros nondecreasing_intros;
      simp add: outside_audio_def video_vars_def session_vars_def controller_calls_def
        is_controller_call_def eng split: prod.splits)+

lemma exits_inD: "exits_in E s \<Longrightarrow> fst (s w) = Some e \<Longrightarrow> e \<in> E"
  unfolding exits_in_def by (metis option.simps(5))

lemma video_build_exit:
  assumes "video_build env w = (Some e, w1)"
  shows "(e = Abort \<or> e = Return (- 1)) \<and> first_time_video w1 = first_time_video w \<and>
         outside_video w1 = outside_video w \<and> length (objects w) \<le> length (objects w1)"
proof (cases "video_make env w")
  case (Pair x wm)
  have fm: "first_time_video wm = first_time_video w" "outside_video wm = outside_video w"
      "length (objects w) \<le> length (objects wm)"
    using unchangedD [OF video_make_frame(2), of env w] unchangedD [OF video_make_frame(1), of env w]
      nondecreasingD [OF video_make_frame(4), of w env] Pair by simp_all
  show ?thesis
  proof (cases x)
    case (Some e')
    then have "e' = Abort"
      using exits_inD [OF video_make_exits, of env w e'] Pair by simp
    then show ?thesis using assms Pair Some fm by (simp add: video_build_split)
  next
    case None
    obtain y wl where l: "video_link env wm = (y, wl)" by (cases "video_link env wm")
    have fl: "video_vars wl = video_vars wm" "outside_video wl = outside_video wm"
        "objects wl = objects wm"
      using unchangedD [OF video_link_frame(2), of env wm] unchangedD [OF video_link_frame(1), of env wm]
        unchangedD [OF video_link_frame(3), of env wm] l by simp_all
    from assms Pair None l obtain e' where y: "y = Some e'" "e' = e" "wl = w1"
      by (cases y) (simp_all add: video_build_split)
    have "e' = Return (- 1)"
      using exits_inD [OF video_link_exits, of env wm e'] l y by simp
    moreover have "first_time_video wl = first_time_video wm"
      using fl(1) by (simp add: video_vars_def)
    ultimately show ?thesis using y fm fl by simp
  qed
qed

lemma video_build_falls:
  assumes "video_build env w = (None, w1)"
  shows "video_built w1 \<and> outside_video w1 = outside_video w \<and>
         udpsink w1 = Some (length (objects w) + 6) \<and> pipeline w1 = Some (length (objects w) + 1) \<and>
         length (objects w1) = length (objects w) + 7 \<and> video_stages_ok env"
proof (cases "video_make env w")
  case (Pair x wm)
  obtain y wl where l: "video_link env wm = (y, wl)" by (cases "video_link env wm")
  from assms Pair l have x: "x = None" and y: "y = None" and w1: "w1 = wl\<lparr>first_time_video := False\<rparr>"
    by (cases x; cases y; simp add: video_build_split)+
  have ok: "video_stages_ok env"
    using video_make_falls [of env w] Pair x by simp
  have fm: "outside_video wm = outside_video w"
    using unchangedD [OF video_make_frame(1), of env w] Pair by simp
  have vm: "udpsink wm = Some (length (objects w) + 6)" "pipeline wm = Some (length (objects w) + 1)"
      "length (objects wm) = length (objects w) + 7"
    using video_make_ok(8,3,9) [OF ok, of w] Pair by simp_all
  have fl: "video_vars wl = video_vars wm" "outside_video wl = outside_video wm"
      "objects wl = objects wm"
    using unchangedD [OF video_link_frame(2), of env wm] unchangedD [OF video_link_frame(1), of env wm]
      unchangedD [OF video_link_frame(3), of env wm] l by simp_all
  have vl: "udpsink wl = udpsink wm" "pipeline wl = pipeline wm"
    using fl(1) by (simp_all add: video_vars_def)
  have o: "outside_video w1 = outside_video wl"
    using w1 by (simp add: outside_video_def audio_vars_def session_vars_def controller_calls_def)
  show ?thesis
    using w1 vm vl fl fm o ok by (simp add: video_built_def)
qed



lemma printf_d_uint: "printf_d (uint (x :: cchar)) = digits10 (unat x)"
  by (simp add: printf_d_def)



lemma printf_d_nat [simp]: "printf_d (int n) = digits10 n"
  by (simp add: printf_d_def)





lemma state_of_Some: "state_of w (Some u) = (if u < length (objects w) then Some (target (objects w ! u)) else None)"
  by (simp add: state_of_def)

lemma video_play_eval':
  "video_play env arg w =
     (let a = set_state_answer env (pipeline w) GST_STATE_PLAYING;
          os = set_target (pipeline w) GST_STATE_PLAYING
                 (set_prop (udpsink w) ''host'' (video_host env arg)
                    (set_prop (udpsink w) ''port'' (G_int 5000) (objects w)));
          cs = calls w @ [Object_set (udpsink w) ''port'' (G_int 5000),
                          Object_set (udpsink w) ''host'' (video_host env arg),
                          Set_state (pipeline w) GST_STATE_PLAYING a]
      in if a \<noteq> GST_STATE_CHANGE_FAILURE
         then (Some (Return 0),
               w\<lparr>objects := os,
                  calls := cs @ [G_print ''Video pipeline state set to playing: OK\<newline>''],
                  video_running := True\<rparr>)
         else (Some (Return (- 1)),
               w\<lparr>objects := os,
                  calls := cs @ [GST_DEBUG ''Failed to start up video pipeline!\<newline>'']\<rparr>))"
  by (simp add: video_play_eval video_host_def Let_def)







lemma map_update_same: "f y = f (os ! x) \<Longrightarrow> map f (os[x := y]) = map f os"
  by (induction os arbitrary: x) (auto split: nat.splits)

lemma map_parent_set_prop [simp]: "map parent (set_prop obj k v os) = map parent os"
  by (cases obj) (simp_all add: set_prop_def map_update_same)

lemma map_parent_set_target [simp]: "map parent (set_target e s os) = map parent os"
  by (cases e) (simp_all add: set_target_def map_update_same)

lemma video_play_frame:
  "outside_video (snd (video_play env arg w)) = outside_video w"
  "length (objects (snd (video_play env arg w))) = length (objects w)"
  "links (snd (video_play env arg w)) = links w"
  "map parent (objects (snd (video_play env arg w))) = map parent (objects w)"
  "first_time_video (snd (video_play env arg w)) = first_time_video w"
  "udpsink (snd (video_play env arg w)) = udpsink w"
  "pipeline (snd (video_play env arg w)) = pipeline w"
  "fst (video_play env arg w) = Some (Return 0) \<or> fst (video_play env arg w) = Some (Return (- 1))"
  by (simp_all add: video_play_eval' Let_def outside_video_def audio_vars_def session_vars_def
      controller_calls_def is_controller_call_def)

lemma video_play_unchanged:
  "unchanged outside_video (video_play env arg)"
  "nondecreasing (\<lambda>w. length (objects w)) (video_play env arg)"
  by (simp_all add: unchanged_def nondecreasing_def video_play_frame)

lemma video_start_frame:
  "unchanged outside_video (video_start env arg)"
  "nondecreasing (\<lambda>w. length (objects w)) (video_start env arg)"
proof -
  have b1: "unchanged outside_video (video_build env)"
    unfolding video_build_def
    by (intro unchanged_intros video_make_frame video_link_frame)
       (simp add: outside_video_def audio_vars_def session_vars_def controller_calls_def)
  have l: "nondecreasing (\<lambda>w. length (objects w)) (video_link env)"
    using video_link_frame(3) [of env] by (simp add: nondecreasing_def unchanged_def)
  have b2: "nondecreasing (\<lambda>w. length (objects w)) (video_build env)"
    unfolding video_build_def
    by (intro nondecreasing_intros video_make_frame l) simp
  have eq: "video_start env arg = block [if_then first_time_video (video_build env), video_play env arg]"
    by (rule ext) (auto simp: video_start_split if_then_def split: prod.splits option.splits)
  show "unchanged outside_video (video_start env arg)"
    unfolding eq by (intro unchanged_intros b1 video_play_unchanged)
  show "nondecreasing (\<lambda>w. length (objects w)) (video_start env arg)"
    unfolding eq by (intro nondecreasing_intros b2 video_play_unchanged)
qed

lemma audio_play_frame:
  "outside_audio (snd (audio_play env arg w)) = outside_audio w"
  "length (objects (snd (audio_play env arg w))) = length (objects w)"
  "links (snd (audio_play env arg w)) = links w"
  "map parent (objects (snd (audio_play env arg w))) = map parent (objects w)"
  "first_time_audio (snd (audio_play env arg w)) = first_time_audio w"
  "audioudpsink (snd (audio_play env arg w)) = audioudpsink w"
  "pipeline_audio (snd (audio_play env arg w)) = pipeline_audio w"
  "fst (audio_play env arg w) = Some (Return 1) \<or> fst (audio_play env arg w) = Some (Return (- 1))"
  by (simp_all add: audio_play_eval Let_def outside_audio_def video_vars_def session_vars_def
      controller_calls_def is_controller_call_def)

lemma audio_play_unchanged:
  "unchanged outside_audio (audio_play env arg)"
  "nondecreasing (\<lambda>w. length (objects w)) (audio_play env arg)"
  by (simp_all add: unchanged_def nondecreasing_def audio_play_frame)

lemma audio_start_frame:
  "unchanged outside_audio (audio_start env arg)"
  "nondecreasing (\<lambda>w. length (objects w)) (audio_start env arg)"
proof -
  have b1: "unchanged outside_audio (audio_build env)"
    unfolding audio_build_def
    by (intro unchanged_intros audio_make_frame audio_link_frame)
       (simp add: outside_audio_def video_vars_def session_vars_def controller_calls_def)
  have l: "nondecreasing (\<lambda>w. length (objects w)) (audio_link env)"
    using audio_link_frame(3) [of env] by (simp add: nondecreasing_def unchanged_def)
  have b2: "nondecreasing (\<lambda>w. length (objects w)) (audio_build env)"
    unfolding audio_build_def
    by (intro nondecreasing_intros audio_make_frame l) simp
  have eq: "audio_start env arg = block [if_then first_time_audio (audio_build env), audio_play env arg]"
    by (rule ext) (auto simp: audio_start_split if_then_def split: prod.splits option.splits)
  show "unchanged outside_audio (audio_start env arg)"
    unfolding eq by (intro unchanged_intros b1 audio_play_unchanged)
  show "nondecreasing (\<lambda>w. length (objects w)) (audio_start env arg)"
    unfolding eq by (intro nondecreasing_intros b2 audio_play_unchanged)
qed

lemma stream_start_eval:
  "gst_native_stream_start env b0 b1 b2 b3 w =
     (let ip = [bias env b0, bias env b1, bias env b2, bias env b3];
          w1 = g_print (''receiver IP: '' @ sprintf_d4 (uint (ip ! 0)) (uint (ip ! 1))
                          (uint (ip ! 2)) (uint (ip ! 3)) @ ''\<newline>'') w;
          r = video_start env ip w1
      in if fst r = Some Abort then (Some Abort, snd r)
         else (None, (snd r)\<lparr>calls := calls (snd r) @
                 [G_print ''stream_start: NOT OK\<newline>'', GST_DEBUG ''my pipeline streaming started'']\<rparr>))"
proof -
  let ?ip = "[bias env b0, bias env b1, bias env b2, bias env b3]"
  let ?w1 = "g_print (''receiver IP: '' @ sprintf_d4 (uint (?ip ! 0)) (uint (?ip ! 1))
                          (uint (?ip ! 2)) (uint (?ip ! 3)) @ ''\<newline>'') w"
  obtain x w2 where r: "video_start env ?ip ?w1 = (x, w2)"
    by (cases "video_start env ?ip ?w1")
  have x: "x = Some Abort \<or> x = Some (Return (- 1)) \<or> x = Some (Return 0)"
  proof (cases x)
    case None
    then show ?thesis
      using video_start_returns [of env ?ip] r by (auto simp: always_exits_def dest: spec [of _ ?w1])
  next
    case (Some e)
    then show ?thesis
      using exits_inD [OF video_start_exits, of env ?ip ?w1 e] r by auto
  qed
  show ?thesis
    using x r
    by (auto simp: gst_native_stream_start_def Let_def ok_string_def eng)
qed

lemma all_ok_answers [simp]:
  "make_ok all_ok f" "pipeline_ok all_ok" "link_ok all_ok a b"
  "state_ret all_ok e s = GST_STATE_CHANGE_SUCCESS" "\<not> char_signed all_ok"
  "parse_error all_ok = None" "\<not> java_throws all_ok" "static_pad all_ok e n"
  "pad_link_ok all_ok p q"
  by (simp_all add: all_ok_def)

lemma video_start_ok_reports: "unchanged ok_reports (video_start env arg)"
proof -
  have m: "unchanged ok_reports (video_make env)"
    unfolding video_make_def
    by (intro unchanged_intros; simp add: ok_reports_def eng split: prod.splits)
  have l: "unchanged ok_reports (video_link env)"
    unfolding video_link_def
    by (intro unchanged_block_cons unchanged_block_nil)
       (simp_all add: unchanged_def link_or_fail_eval ok_reports_def)
  show ?thesis
    unfolding video_start_def
    by (intro unchanged_intros m l; simp add: ok_reports_def eng split: prod.splits)
qed

lemma video_start_zero_iff:
  "fst (video_start env arg w) = Some (Return 0) \<longleftrightarrow>
     \<not> first_time_video (snd (video_start env arg w)) \<and>
     set_state_answer env (pipeline (snd (video_start env arg w))) GST_STATE_PLAYING
       \<noteq> GST_STATE_CHANGE_FAILURE"
proof (cases "first_time_video w")
  case False
  then show ?thesis
    by (simp add: video_start_split video_play_eval' Let_def)
next
  case True
  obtain x w1 where b: "video_build env w = (x, w1)" by (cases "video_build env w")
  show ?thesis
  proof (cases x)
    case None
    have "\<not> first_time_video w1"
      using video_build_falls [of env w w1] b None by (simp add: video_built_def)
    then show ?thesis
      using True b None by (simp add: video_start_split video_play_eval' Let_def)
  next
    case (Some e)
    then show ?thesis
      using video_build_exit [of env w e w1] b True by (auto simp: video_start_split)
  qed
qed

lemma video_start_succeeds:
  assumes "first_time_video w" "video_stages_ok env"
    and "\<forall>l\<in>set video_links. link_accepted env (snd (video_make env w)) l"
    and "set_state_answer env (Some (length (objects w) + 1)) GST_STATE_PLAYING \<noteq> GST_STATE_CHANGE_FAILURE"
  shows "fst (video_start env arg w) = Some (Return 0)"
proof -
  obtain x wm where m: "video_make env w = (x, wm)"
    by (cases "video_make env w")
  have x: "x = None"
    using video_make_ok(1) [OF assms(2), of w] m by simp
  have wm: "wm = snd (video_make env w)"
    using m by simp
  have p: "pipeline wm = Some (length (objects w) + 1)"
    unfolding wm by (rule video_make_ok(3) [OF assms(2)])
  have "link_chain env video_links wm =
        (None, wm\<lparr>links := links wm @ linked_pairs wm video_links,
                  calls := calls wm @ linked_calls wm video_links\<rparr>)"
    using assms(3) unfolding wm [symmetric]
    by (intro link_chain_all_accepted [OF video_links_read_handles])
  then have l: "video_link env wm =
        (None, wm\<lparr>links := links wm @ linked_pairs wm video_links,
                  calls := calls wm @ linked_calls wm video_links\<rparr>)"
    by (simp only: video_link_chain)
  show ?thesis
    using assms(1,4) p
    by (simp add: video_start_split video_build_split m x l video_play_eval' Let_def)
qed

lemma video_start_all_ok:
  assumes "first_time_video w"
  shows "fst (video_start all_ok arg w) = Some (Return 0)"
proof -
  let ?wm = "snd (video_make all_ok w)"
  have h: "camera ?wm = Some (length (objects w))" "queue ?wm = Some (length (objects w) + 2)"
      "capsfilter ?wm = Some (length (objects w) + 3)"
      "videoconvert ?wm = Some (length (objects w) + 4)"
      "encoder ?wm = Some (length (objects w) + 5)" "udpsink ?wm = Some (length (objects w) + 6)"
    using video_make_ok(2,4,5,6,7,8) [OF all_ok_stages(1), of w] by simp_all
  have l: "\<forall>l\<in>set video_links. link_accepted all_ok ?wm l"
    by (simp add: video_links_def link_accepted_def link_answer_def h)
  have s: "set_state_answer all_ok (Some (length (objects w) + 1)) GST_STATE_PLAYING
             \<noteq> GST_STATE_CHANGE_FAILURE"
    by (simp add: set_state_answer_def)
  show ?thesis
    by (rule video_start_succeeds [OF assms all_ok_stages(1) l s])
qed

lemma stream_stop_eval:
  "gst_native_stream_stop env w =
     (None, (snd (video_stop env w))\<lparr>calls := calls (snd (video_stop env w)) @
        [G_print ''stream_stop: OK\<newline>'', GST_DEBUG ''my pipeline streaming stopped'']\<rparr>)"
  by (simp add: gst_native_stream_stop_def video_stop_eval ok_string_def eng)

lemma map_factory_set_prop [simp]: "map factory (set_prop obj k v os) = map factory os"
  by (cases obj) (simp_all add: set_prop_def map_update_same)

lemma map_factory_set_target [simp]: "map factory (set_target e s os) = map factory os"
  by (cases e) (simp_all add: set_target_def map_update_same)









lemma audio_make_fallback:
  assumes "pipeline_ok env" "\<not> make_ok env ''openslessrc''" "make_ok env ''audioconvert''"
    "make_ok env ''speexenc''" "make_ok env ''udpsink''" "make_ok env ''audiotestsrc''"
  shows "fst (audio_make env w) = None"
    and "pipeline_audio (snd (audio_make env w)) = Some (length (objects w))"
    and "audiosource (snd (audio_make env w)) = Some (length (objects w) + 4)"
    and "audioconvert (snd (audio_make env w)) = Some (length (objects w) + 1)"
    and "speexenc (snd (audio_make env w)) = Some (length (objects w) + 2)"
    and "audioudpsink (snd (audio_make env w)) = Some (length (objects w) + 3)"
    and "length (objects (snd (audio_make env w))) = length (objects w) + 5"
    and "calls (snd (audio_make env w)) = calls w @
          [Pipeline_new ''pipeline-audio'' (Some (length (objects w))),
           Factory_make ''openslessrc'' (Some ''audiosource'') None,
           Factory_make ''audioconvert'' (Some ''audio-convert'') (Some (length (objects w) + 1)),
           Factory_make ''speexenc'' (Some ''audio-encoder'') (Some (length (objects w) + 2)),
           Factory_make ''udpsink'' (Some ''sink'') (Some (length (objects w) + 3)),
           Factory_make ''audiotestsrc'' None (Some (length (objects w) + 4)),
           Bin_add_many (Some (length (objects w)))
             [Some (length (objects w) + 4), Some (length (objects w) + 1),
              Some (length (objects w) + 2), Some (length (objects w) + 3)]]"
  using assms by (simp_all add: audio_make_def ctl eng)

lemma audio_make_requested:
  "requested_stages (snd (audio_make env w)) = requested_stages w @
     [''pipeline-audio'', ''openslessrc'', ''audioconvert'', ''speexenc'', ''udpsink''] @
     (if make_ok env ''udpsink'' \<and> \<not> make_ok env ''openslessrc'' then [''audiotestsrc''] else [])"
  by (cases "pipeline_ok env"; cases "make_ok env ''openslessrc''";
      cases "make_ok env ''audioconvert''"; cases "make_ok env ''speexenc''";
      cases "make_ok env ''udpsink''"; cases "make_ok env ''audiotestsrc''";
      simp add: audio_make_def ctl eng requested_stages_def requested_def)

lemma audio_make_exit_iff:
  "fst (audio_make env w) = (if audio_stages_ok env then None else Some Abort)"
  by (cases "pipeline_ok env"; cases "make_ok env ''openslessrc''";
      cases "make_ok env ''audioconvert''"; cases "make_ok env ''speexenc''";
      cases "make_ok env ''udpsink''"; cases "make_ok env ''audiotestsrc''";
      simp add: audio_make_def ctl eng audio_stages_ok_def)

lemma map_factory_set_parent [simp]: "map factory (set_parent b e os) = map factory os"
  by (simp add: set_parent_def map_update_same)

lemma map_factory_add_children [simp]: "map factory (add_children b es os) = map factory os"
proof (cases b)
  case None
  then show ?thesis by (simp add: add_children_def)
next
  case (Some p)
  have "map factory (foldl (\<lambda>os e. set_parent p e os) os xs) = map factory os" for xs
    by (induction xs arbitrary: os) simp_all
  then show ?thesis using Some by (simp add: add_children_def)
qed

lemma audio_make_factories:
  assumes "pipeline_ok env" "make_ok env ''audioconvert''" "make_ok env ''speexenc''"
    "make_ok env ''udpsink''" "make_ok env ''openslessrc'' \<or> make_ok env ''audiotestsrc''"
  shows "map factory (objects (snd (audio_make env w))) = map factory (objects w) @
           (if make_ok env ''openslessrc''
            then [''pipeline'', ''openslessrc'', ''audioconvert'', ''speexenc'', ''udpsink'']
            else [''pipeline'', ''audioconvert'', ''speexenc'', ''udpsink'', ''audiotestsrc''])"
  using assms
  by (cases "make_ok env ''openslessrc''") (simp_all add: audio_make_def ctl eng new_object_def)

lemma audio_start_make_exit:
  assumes "first_time_audio w" "fst (audio_make env w) = Some e"
  shows "audio_start env arg w = (Some e, snd (audio_make env w))"
  using assms by (cases "audio_make env w") (simp add: audio_start_split audio_build_split)

lemma audio_link_accepted:
  assumes "\<forall>l\<in>set audio_links. link_accepted env w l"
  shows "audio_link env w =
           (None, w\<lparr>links := links w @ linked_pairs w audio_links,
                     calls := calls w @ linked_calls w audio_links\<rparr>)"
  unfolding audio_link_chain
  by (rule link_chain_all_accepted [OF audio_links_read_handles assms])
















lemma video_wf_calls [simp]: "video_wf (w\<lparr>calls := cs\<rparr>) = video_wf w"
  by (simp add: video_wf_def video_built_def)
















lemmas ses = attach_current_thread_def detach_current_thread_def get_jni_env_def thread_exit_def
  java_exception_check_def set_ui_message_def upd_data_def data_pipeline_def
  gst_parse_launch_def g_signal_connect_def bus_add_watch_def
  on_pad_added_def gst_element_get_static_pad_def gst_pad_link_def g_main_loop_quit_def
  gst_native_init_def

lemmas vars = program_vars_def video_vars_def audio_vars_def

lemmas obs = calm_def notifications_def finalize_calls_def is_finalize_call_def build_calls_def
  is_build_call_def controller_calls_def is_controller_call_def

lemma set_ui_message_calm: "unchanged calm (set_ui_message env m)"
  by (simp add: unchanged_def ses eng vars obs Let_def split: prod.splits)

lemma set_ui_message_pad_links: "unchanged pad_links (set_ui_message env m)"
  by (simp add: unchanged_def ses eng Let_def split: prod.splits)

lemma set_ui_message_objects: "unchanged objects (set_ui_message env m)"
  by (simp add: unchanged_def ses eng Let_def split: prod.splits)

lemma set_ui_message_requests: "unchanged state_requests (set_ui_message env m)"
  by (simp add: unchanged_def ses eng Let_def state_requests_def is_state_request_def
      split: prod.splits)

lemma set_state_calm: "calm (snd (gst_element_set_state env e s w)) = calm w"
  by (simp add: eng vars obs)

lemma error_cb_calm: "unchanged calm (error_cb env m)"
  unfolding error_cb_def
  by (cases m) (auto intro!: unchanged_intros set_ui_message_calm simp: set_state_calm)

lemma error_cb_pad_links: "unchanged pad_links (error_cb env m)"
  unfolding error_cb_def
  by (cases m) (auto intro!: unchanged_intros set_ui_message_pad_links simp: eng)

lemma state_changed_cb_calm: "unchanged calm (state_changed_cb env m)"
  unfolding state_changed_cb_def
  by (cases m) (auto intro!: unchanged_intros set_ui_message_calm)

lemma state_changed_cb_pad_links: "unchanged pad_links (state_changed_cb env m)"
  unfolding state_changed_cb_def
  by (cases m) (auto intro!: unchanged_intros set_ui_message_pad_links)

lemma on_pad_added_calm: "calm (on_pad_added env obj p d w) = calm w"
  by (simp add: ses eng vars obs Let_def split: prod.splits option.splits)


lemma invoke_calm: "unchanged calm (invoke env obj sg h)"
  by (cases "(env, obj, sg, h)" rule: invoke.cases)
     (auto intro!: unchanged_intros error_cb_calm state_changed_cb_calm simp: on_pad_added_calm)

lemma unchanged_block_map:
  "(\<And>x. unchanged obs (f x)) \<Longrightarrow> unchanged obs (block (map f xs))"
  by (induction xs) (auto intro: unchanged_intros)

lemma engine_signal_calm: "unchanged calm (engine_signal env obj sg)"
proof -
  have "unchanged calm (block (map (invoke env obj sg) hs))" for hs
    by (rule unchanged_block_map) (rule invoke_calm)
  then show ?thesis
    by (auto simp: unchanged_def engine_signal_def g_signal_emit_def split: signal.splits)
qed

lemma block_append:
  "block (xs @ ys) w =
     (case block xs w of (None, w') \<Rightarrow> block ys w' | (Some e, w') \<Rightarrow> (Some e, w'))"
  by (induction xs arbitrary: w) (auto split: prod.splits option.splits)

lemma begin_body_split:
  "app_function_begin_body env =
     block (app_function_setup env @ app_function_watch env @ app_function_notify env)"
  by (simp add: app_function_begin_body_def app_function_setup_def app_function_watch_def
      app_function_notify_def)

lemma set_ui_message_exits: "exits_in {Abort} (set_ui_message env m)"
  by (simp add: exits_in_def ses Let_def split: prod.splits)

lemma check_initialization_exits: "exits_in {Abort} (check_initialization_complete env)"
  by (simp add: exits_in_def check_initialization_complete_def Let_def
      split: prod.splits option.splits)

lemma setup_exits: "exits_in {Abort, Return 0} (block (app_function_setup env))"
  unfolding app_function_setup_def
  by (intro exits_intros exits_mono [OF set_ui_message_exits]) simp_all

lemma watch_exits: "exits_in {} (block (app_function_watch env))"
  unfolding app_function_watch_def by (intro exits_intros)

lemma notify_exits: "exits_in {Abort} (block (app_function_notify env))"
  unfolding app_function_notify_def
  by (intro exits_intros check_initialization_exits)

lemma set_ui_message_quiet: "unchanged quiet (set_ui_message env m)"
  using set_ui_message_calm [of env m] set_ui_message_pad_links [of env m]
  by (simp add: unchanged_def quiet_def calm_def)

lemma setup_quiet: "unchanged quiet (block (app_function_setup env))"
  unfolding app_function_setup_def
  by (intro unchanged_intros set_ui_message_quiet;
      simp add: quiet_def ses eng vars obs split: prod.splits)

lemma setup_watches:
  "unchanged (\<lambda>w. (watches w, connections w)) (block (app_function_setup env))"
proof -
  have "unchanged (\<lambda>w. (watches w, connections w)) (set_ui_message env m)" for m
    using set_ui_message_calm [of env m] by (simp add: unchanged_def calm_def)
  then show ?thesis
    unfolding app_function_setup_def
    by (intro unchanged_intros; simp add: ses eng split: prod.splits)
qed

lemma watch_quiet: "unchanged quiet (block (app_function_watch env))"
  unfolding app_function_watch_def
  by (intro unchanged_intros; simp add: quiet_def ses eng vars obs split: option.splits)

lemma check_initialization_frame:
  "unchanged (\<lambda>w. (program_vars w, pad_links w, finalize_calls w, gst_app_thread w,
                    watches w, connections w, objects w, data_pipeline w))
     (check_initialization_complete env)"
  by (simp add: unchanged_def check_initialization_complete_def ses eng vars obs Let_def
      split: prod.splits option.splits)

lemma check_initialization_notifications:
  "notifications (snd (check_initialization_complete env w)) \<le> notifications w + 1"
  by (simp add: check_initialization_complete_def ses eng obs Let_def
      split: prod.splits option.splits)

lemma notify_frame:
  "unchanged (\<lambda>w. (program_vars w, pad_links w, finalize_calls w, gst_app_thread w,
                    watches w, connections w, objects w, data_pipeline w))
     (block (app_function_notify env))"
  unfolding app_function_notify_def
  by (intro unchanged_intros check_initialization_frame) (simp add: ses vars obs split: option.splits)

lemma notify_notifications:
  "notifications (snd (block (app_function_notify env) w)) \<le> notifications w + 1"
proof -
  have "notifications (upd_data f v) = notifications v" for f v
    by (simp add: ses obs)
  then show ?thesis
    using check_initialization_notifications [of env w]
    by (cases "check_initialization_complete env w")
       (auto simp: app_function_notify_def exec_def split: option.splits)
qed

lemma watch_eval:
  "fst (block (app_function_watch env) w) = None"
  "watches (snd (block (app_function_watch env) w)) = watches w @ session_watch w"
  "connections (snd (block (app_function_watch env) w)) = connections w @ session_handlers w"
  "data_pipeline (snd (block (app_function_watch env) w)) = data_pipeline w"
  "map_option initialized (native_custom_data (snd (block (app_function_watch env) w)))
     = map_option initialized (native_custom_data w)"
  "map_option main_loop (native_custom_data (snd (block (app_function_watch env) w)))
     = map_option (\<lambda>d. Some (GMainLoop False)) (native_custom_data w)"
  by (auto simp: app_function_watch_def ctl ses eng session_watch_def session_handlers_def
      option.map_comp comp_def split: option.splits)

lemma setup_initialized:
  "unchanged (\<lambda>w. map_option initialized (native_custom_data w)) (block (app_function_setup env))"
proof -
  have "unchanged (\<lambda>w. map_option initialized (native_custom_data w)) (set_ui_message env m)" for m
    using set_ui_message_calm [of env m] by (simp add: unchanged_def calm_def)
  then show ?thesis
    unfolding app_function_setup_def
    by (intro unchanged_intros;
        simp add: ses eng option.map_comp comp_def split: prod.splits option.splits)
qed

lemma setup_falls:
  "fst (block (app_function_setup env) w) = None \<longleftrightarrow> parse_error env = None"
proof -
  have "fst (set_ui_message env m v) = None \<or> fst (set_ui_message env m v) = Some Abort" for m v
    by (simp add: ses Let_def split: prod.splits)
  then show ?thesis
    by (auto simp: app_function_setup_def ctl split: prod.splits option.splits)
qed

lemma check_initialization_eval:
  assumes "native_custom_data w = Some d" "fst (check_initialization_complete env w) = None"
  shows "notifications (snd (check_initialization_complete env w)) =
           notifications w + (if \<not> initialized d \<and> main_loop d \<noteq> None then 1 else 0)"
    and "map_option initialized (native_custom_data (snd (check_initialization_complete env w)))
           = Some (initialized d \<or> main_loop d \<noteq> None)"
  using assms
  by (auto simp: check_initialization_complete_def ses eng obs Let_def
      split: prod.splits option.splits if_splits)

lemma notify_eval:
  assumes "native_custom_data w = Some d" "fst (block (app_function_notify env) w) = None"
  shows "notifications (snd (block (app_function_notify env) w)) =
           notifications w + (if \<not> initialized d \<and> main_loop d \<noteq> None then 1 else 0)"
    and "map_option initialized (native_custom_data (snd (block (app_function_notify env) w)))
           = Some (initialized d \<or> main_loop d \<noteq> None)"
proof -
  obtain x w1 where c: "check_initialization_complete env w = (x, w1)"
    by (cases "check_initialization_complete env w")
  have x: "x = None" using assms(2) c
    by (cases x) (simp_all add: app_function_notify_def)
  have e: "block (app_function_notify env) w =
      (None, upd_data (\<lambda>d. d\<lparr>main_loop := Some (GMainLoop True)\<rparr>) w1)"
    using c x by (simp add: app_function_notify_def exec_def)
  have n: "notifications (upd_data f v) = notifications v" for f v
    by (simp add: ses obs)
  show "notifications (snd (block (app_function_notify env) w)) =
           notifications w + (if \<not> initialized d \<and> main_loop d \<noteq> None then 1 else 0)"
    using check_initialization_eval(1) [OF assms(1), of env] c x by (simp add: e n)
  show "map_option initialized (native_custom_data (snd (block (app_function_notify env) w)))
           = Some (initialized d \<or> main_loop d \<noteq> None)"
    using check_initialization_eval(2) [OF assms(1), of env] c x
    by (simp add: e upd_data_def option.map_comp comp_def)
qed

lemma session_watch_cong:
  "data_pipeline w' = data_pipeline w \<Longrightarrow> session_watch w' = session_watch w"
  "data_pipeline w' = data_pipeline w \<Longrightarrow> session_handlers w' = session_handlers w"
  by (simp_all add: session_watch_def session_handlers_def)

lemma begin_body_cases:
  obtains (killed) "fst (app_function_begin_body env w) = Some Abort"
  | (early) "fst (app_function_begin_body env w) = Some (Return 0)" "parse_error env \<noteq> None"
      "quiet (snd (app_function_begin_body env w)) = quiet w"
      "watches (snd (app_function_begin_body env w)) = watches w"
      "connections (snd (app_function_begin_body env w)) = connections w"
  | (loop) "fst (app_function_begin_body env w) = None" "parse_error env = None"
      "program_vars (snd (app_function_begin_body env w)) = program_vars w"
      "pad_links (snd (app_function_begin_body env w)) = pad_links w"
      "finalize_calls (snd (app_function_begin_body env w)) = finalize_calls w"
      "gst_app_thread (snd (app_function_begin_body env w)) = gst_app_thread w"
      "notifications (snd (app_function_begin_body env w)) \<le> notifications w + 1"
      "watches (snd (app_function_begin_body env w)) =
         watches w @ session_watch (snd (app_function_begin_body env w))"
      "connections (snd (app_function_begin_body env w)) =
         connections w @ session_handlers (snd (app_function_begin_body env w))"
      "\<And>d. native_custom_data w = Some d \<Longrightarrow> \<not> initialized d \<Longrightarrow>
         notifications (snd (app_function_begin_body env w)) = notifications w + 1"
proof -
  obtain x1 w1 where s: "block (app_function_setup env) w = (x1, w1)"
    by (cases "block (app_function_setup env) w")
  have q1: "quiet w1 = quiet w"
    using unchangedD [OF setup_quiet, of env w] s by simp
  have c1: "watches w1 = watches w" "connections w1 = connections w"
    using unchangedD [OF setup_watches, of env w] s by simp_all
  have i1: "map_option initialized (native_custom_data w1) = map_option initialized (native_custom_data w)"
    using unchangedD [OF setup_initialized, of env w] s by simp
  have p1: "x1 = None \<longleftrightarrow> parse_error env = None"
    using setup_falls [of env w] s by simp
  show ?thesis
  proof (cases x1)
    case (Some e)
    then have r: "app_function_begin_body env w = (Some e, w1)"
      using s by (simp add: begin_body_split block_append)
    have "e = Abort \<or> e = Return 0"
      using exits_inD [OF setup_exits, of env w e] s Some by simp
    then show ?thesis
    proof
      assume "e = Abort"
      then show ?thesis using r killed by simp
    next
      assume "e = Return 0"
      then show ?thesis using r early q1 c1 p1 Some by simp
    qed
  next
    case None
    obtain x2 w2 where w2': "block (app_function_watch env) w1 = (x2, w2)"
      by (cases "block (app_function_watch env) w1")
    have x2: "x2 = None" using watch_eval(1) [of env w1] w2' by simp
    have w2: "block (app_function_watch env) w1 = (None, w2)" using w2' x2 by simp
    have we: "watches w2 = watches w1 @ session_watch w1"
        "connections w2 = connections w1 @ session_handlers w1"
        "data_pipeline w2 = data_pipeline w1"
        "map_option initialized (native_custom_data w2) = map_option initialized (native_custom_data w1)"
        "map_option main_loop (native_custom_data w2)
           = map_option (\<lambda>d. Some (GMainLoop False)) (native_custom_data w1)"
      using watch_eval(2-6) [of env w1] w2 by simp_all
    have q2: "quiet w2 = quiet w1"
      using unchangedD [OF watch_quiet, of env w1] w2 by simp
    obtain x3 w3 where n: "block (app_function_notify env) w2 = (x3, w3)"
      by (cases "block (app_function_notify env) w2")
    have r: "app_function_begin_body env w = (x3, w3)"
      using s None w2 n by (simp add: begin_body_split block_append)
    have f3: "program_vars w3 = program_vars w2" "pad_links w3 = pad_links w2"
        "finalize_calls w3 = finalize_calls w2" "gst_app_thread w3 = gst_app_thread w2"
        "watches w3 = watches w2" "connections w3 = connections w2"
        "data_pipeline w3 = data_pipeline w2"
      using unchangedD [OF notify_frame, of env w2] n by simp_all
    have n3: "notifications w3 \<le> notifications w2 + 1"
      using notify_notifications [of env w2] n by simp
    show ?thesis
    proof (cases x3)
      case (Some e)
      then have "e = Abort"
        using exits_inD [OF notify_exits, of env w2 e] n by simp
      then show ?thesis using r Some killed by simp
    next
      case x3: None
      have d3: "data_pipeline w3 = data_pipeline w1"
        using f3(7) we(3) by simp
      have a: "watches w3 = watches w @ session_watch w3"
        using f3(5) we(1) c1 session_watch_cong(1) [OF d3] by simp
      have b: "connections w3 = connections w @ session_handlers w3"
        using f3(6) we(2) c1 session_watch_cong(2) [OF d3] by simp
      have fresh: "notifications w3 = notifications w + 1"
        if "native_custom_data w = Some d" "\<not> initialized d" for d
      proof -
        from that i1 obtain d1 where d1: "native_custom_data w1 = Some d1" "\<not> initialized d1"
          by (cases "native_custom_data w1") auto
        from d1 we(4,5) obtain d2 where
          d2: "native_custom_data w2 = Some d2" "\<not> initialized d2" "main_loop d2 = Some (GMainLoop False)"
          by (cases "native_custom_data w2") auto
        have "notifications w3 = notifications w2 + 1"
          using notify_eval(1) [OF d2(1), of env] n x3 d2 by simp
        then show ?thesis using q1 q2 by (simp add: quiet_def)
      qed
      show ?thesis
        using loop r x3 p1 None f3 q1 q2 n3 a b fresh by (simp add: quiet_def)
    qed
  qed
qed

lemma thread_exit_frame:
  "program_vars (thread_exit w) = program_vars w" "pad_links (thread_exit w) = pad_links w"
  "finalize_calls (thread_exit w) = finalize_calls w" "notifications (thread_exit w) = notifications w"
  "watches (thread_exit w) = watches w" "connections (thread_exit w) = connections w"
  "native_custom_data (thread_exit w) = native_custom_data w"
  "controller_calls (thread_exit w) = controller_calls w"
  "gst_app_thread (thread_exit w) = Exited" "objects (thread_exit w) = objects w"
  by (simp_all add: ses eng vars obs)

lemma begin_cases:
  assumes "app_function_begin env w = Some w'"
  obtains (early) "gst_app_thread w' = Exited" "parse_error env \<noteq> None"
      "program_vars w' = program_vars w" "pad_links w' = pad_links w"
      "finalize_calls w' = finalize_calls w" "notifications w' = notifications w"
      "watches w' = watches w" "connections w' = connections w"
  | (loop) "gst_app_thread w' = In_main_loop" "parse_error env = None"
      "program_vars w' = program_vars w" "pad_links w' = pad_links w"
      "finalize_calls w' = finalize_calls w" "notifications w' \<le> notifications w + 1"
      "watches w' = watches w @ session_watch w'"
      "connections w' = connections w @ session_handlers w'"
      "\<And>d. native_custom_data w = Some d \<Longrightarrow> \<not> initialized d \<Longrightarrow>
         notifications w' = notifications w + 1"
proof -
  let ?r = "app_function_begin_body env w"
  show ?thesis
  proof (cases rule: begin_body_cases [of env w])
    case killed
    then show ?thesis using assms by (cases ?r) (simp add: app_function_begin_def)
  next
    case early
    then have w': "w' = thread_exit (snd ?r)"
      using assms by (cases ?r) (simp add: app_function_begin_def)
    show ?thesis
      using early w' by (intro that(1)) (simp_all add: thread_exit_frame quiet_def)
  next
    case loop
    then have w': "w' = (snd ?r)\<lparr>gst_app_thread := In_main_loop\<rparr>"
      using assms by (cases ?r) (simp add: app_function_begin_def)
    have c: "session_watch w' = session_watch (snd ?r)" "session_handlers w' = session_handlers (snd ?r)"
      by (simp_all add: w' session_watch_def session_handlers_def data_pipeline_def)
    have o: "program_vars w' = program_vars (snd ?r)" "finalize_calls w' = finalize_calls (snd ?r)"
        "notifications w' = notifications (snd ?r)"
      by (simp_all add: w' vars obs)
    show ?thesis
    proof (rule that(2))
      show "gst_app_thread w' = In_main_loop" by (simp add: w')
      show "parse_error env = None" by (rule loop(2))
      show "program_vars w' = program_vars w" using o loop by simp
      show "pad_links w' = pad_links w" using loop by (simp add: w')
      show "finalize_calls w' = finalize_calls w" using o loop by simp
      show "notifications w' \<le> notifications w + 1" using o loop by simp
      show "watches w' = watches w @ session_watch w'" using loop(8) c by (simp add: w')
      show "connections w' = connections w @ session_handlers w'" using loop(9) c by (simp add: w')
      show "\<And>d. native_custom_data w = Some d \<Longrightarrow> \<not> initialized d \<Longrightarrow>
         notifications w' = notifications w + 1"
        using loop(10) o by simp
    qed
  qed
qed

lemma end_frame:
  "program_vars (app_function_end env w) = program_vars w"
  "pad_links (app_function_end env w) = pad_links w"
  "notifications (app_function_end env w) = notifications w"
  "controller_calls (app_function_end env w) = controller_calls w"
  "connections (app_function_end env w) = connections w"
  "finalize_calls (app_function_end env w) = finalize_calls w"
  "watches (app_function_end env w) = []"
  "gst_app_thread (app_function_end env w) = Exited"
  "length (objects (app_function_end env w)) = length (objects w)"
  by (simp_all add: app_function_end_def Let_def thread_exit_frame) (simp_all add: ses eng vars obs)

lemma notifications_controller:
  "notifications w = length (filter (\<lambda>c. c = Call_onGStreamerInitialized) (controller_calls w))"
proof -
  have "filter (\<lambda>c. c = Call_onGStreamerInitialized) (filter is_controller_call cs) =
        filter (\<lambda>c. c = Call_onGStreamerInitialized) cs" for cs
    by (induction cs) (auto simp: is_controller_call_def)
  then show ?thesis by (simp add: notifications_def controller_calls_def)
qed

lemma finishedD: "finished r = Some w' \<Longrightarrow> w' = snd r \<and> fst r \<noteq> Some Abort"
  by (cases r) (auto simp: finished_def split: option.splits exit.splits)

lemma session_side_calls:
  "\<not> is_controller_call c \<Longrightarrow> session_side (emit c w) = session_side w"
  by (simp add: session_side_def session_vars_def controller_calls_def emit_def)

lemma outside_video_side: "outside_video w' = outside_video w \<Longrightarrow> session_side w' = session_side w"
  by (simp add: outside_video_def session_side_def)

lemma outside_audio_side: "outside_audio w' = outside_audio w \<Longrightarrow> session_side w' = session_side w"
  by (simp add: outside_audio_def session_side_def)

lemma stream_start_side:
  "session_side (snd (gst_native_stream_start env b0 b1 b2 b3 w)) = session_side w"
proof -
  have g: "session_side (g_print s v) = session_side v" for s v
    by (simp add: g_print_def session_side_calls is_controller_call_def)
  have v: "session_side (snd (video_start env arg v)) = session_side v" for arg v
    by (rule outside_video_side) (rule unchangedD [OF video_start_frame(1)])
  have t: "session_side (v\<lparr>calls := calls v @ [G_print s, GST_DEBUG s']\<rparr>) = session_side v" for v s s'
    by (simp add: session_side_def session_vars_def controller_calls_def is_controller_call_def)
  show ?thesis
    by (simp add: stream_start_eval Let_def v g t)
qed

lemma stop_side:
  "session_side (snd (video_stop env w)) = session_side w"
  "session_side (snd (audio_stop env w)) = session_side w"
  "session_side (snd (gst_native_stream_stop env w)) = session_side w"
  by (simp_all add: stream_stop_eval video_stop_eval audio_stop_eval session_side_def
      session_vars_def controller_calls_def is_controller_call_def)

lemma audio_start_side: "session_side (snd (audio_start env arg w)) = session_side w"
  by (rule outside_audio_side) (rule unchangedD [OF audio_start_frame(1)])

lemma command_side:
  assumes "step env ev w = Some w'"
    and "ev \<noteq> Thread_runs" "ev \<noteq> Native_finalize" "\<And>obj sg. ev \<noteq> Engine_raises obj sg"
  shows "session_side w' = session_side w"
  using assms
  by (cases ev)
     (auto simp: step_def stream_start_side stop_side audio_start_side dest!: finishedD)

lemma side_fields:
  assumes "session_side w' = session_side w"
  shows "native_custom_data w' = native_custom_data w" "gst_app_thread w' = gst_app_thread w"
    "watches w' = watches w" "connections w' = connections w" "pad_links w' = pad_links w"
    "controller_calls w' = controller_calls w" "notifications w' = notifications w"
    "data_pipeline w' = data_pipeline w"
  using assms
  by (simp_all add: session_side_def session_vars_def notifications_controller data_pipeline_def)

lemma calm_fields:
  assumes "calm w' = calm w"
  shows "native_custom_data w' = native_custom_data w" "gst_app_thread w' = gst_app_thread w"
    "watches w' = watches w" "connections w' = connections w" "notifications w' = notifications w"
    "program_vars w' = program_vars w" "data_pipeline w' = data_pipeline w"
    "finalize_calls w' = finalize_calls w" "length (objects w') = length (objects w)"
  using assms by (simp_all add: calm_def data_pipeline_def)

lemma invoke_bus_pad_links: "unchanged pad_links (invoke env obj (Bus_message m) h)"
  by (cases h) (auto intro!: unchanged_intros error_cb_pad_links state_changed_cb_pad_links)

lemma invoke_known_pad_links:
  "h = Error_cb \<or> h = State_changed_cb \<Longrightarrow> invoke env obj (Pad_added p) h = block []"
  by auto

lemma block_map_cong:
  assumes "\<And>x. x \<in> set xs \<Longrightarrow> f x = g x"
  shows "block (map f xs) = block (map g xs)"
proof -
  have "map f xs = map g xs" using assms by (intro map_cong) simp_all
  then show ?thesis by (rule arg_cong)
qed

lemma block_map_nil: "block (map (\<lambda>x. block []) xs) w = (None, w)"
  by (induction xs) auto

lemma handlers_of_known:
  "handlers_known w \<Longrightarrow> h \<in> set (handlers_of w obj n) \<Longrightarrow> h = Error_cb \<or> h = State_changed_cb"
  by (auto simp: handlers_known_def handlers_of_def list_all_iff)

lemma pad_added_ignored:
  assumes "handlers_known w"
  shows "engine_signal env obj (Pad_added p) w = (None, w)"
proof -
  have "block (map (invoke env obj (Pad_added p)) (handlers_of w obj ''pad-added'')) =
        block (map (\<lambda>h. block []) (handlers_of w obj ''pad-added''))"
    by (rule block_map_cong) (use handlers_of_known [OF assms] invoke_known_pad_links in blast)
  then show ?thesis
    by (simp add: engine_signal_def g_signal_emit_def signal_name_def block_map_nil)
qed


lemma engine_signal_bus_pad_links:
  "pad_links (snd (engine_signal env obj (Bus_message m) w)) = pad_links w"
proof -
  have "unchanged pad_links (block (map (invoke env obj (Bus_message m)) hs))" for hs
    by (rule unchanged_block_map) (rule invoke_bus_pad_links)
  then show ?thesis
    by (auto simp: engine_signal_def g_signal_emit_def unchanged_def)
qed

lemma engine_signal_pad_links:
  "handlers_known w \<Longrightarrow> pad_links (snd (engine_signal env obj sg w)) = pad_links w"
  by (cases sg) (simp_all add: engine_signal_bus_pad_links pad_added_ignored)



lemma finalize_cases:
  assumes "gst_native_finalize env w = Some w'" "native_custom_data w = Some d"
  shows "native_custom_data w' = None"
    and "thread_gone w'"
    and "program_vars w' = program_vars w"
    and "pad_links w' = pad_links w"
    and "connections w' = connections w"
    and "notifications w' = notifications w"
    and "finalize_calls w' = finalize_calls w @
           [Main_loop_quit (main_loop d \<noteq> None), Pthread_join, Delete_global_ref,
            G_free_CustomData, Set_long_field False]"
    and "watches w' = (if gst_app_thread w = In_main_loop then [] else watches w)"
    and "gst_app_thread w \<noteq> Created \<Longrightarrow> controller_calls w' = controller_calls w"
    and "gst_app_thread w \<noteq> No_thread \<Longrightarrow> gst_app_thread w' = Exited"
proof -
  let ?w3 = "gst_debug ''Waiting for thread to finish...''
               (g_main_loop_quit (gst_debug ''Quitting main loop...'' w))"
  have 3: "program_vars ?w3 = program_vars w" "pad_links ?w3 = pad_links w"
      "connections ?w3 = connections w" "notifications ?w3 = notifications w"
      "watches ?w3 = watches w" "controller_calls ?w3 = controller_calls w"
      "gst_app_thread ?w3 = gst_app_thread w"
      "finalize_calls ?w3 = finalize_calls w @ [Main_loop_quit (main_loop d \<noteq> None)]"
    using assms(2) by (simp_all add: ses eng vars obs)
  obtain w4 where j: "pthread_join env ?w3 = Some w4"
    using assms by (auto simp: gst_native_finalize_def Let_def split: option.splits)
  then obtain u where u: "thread_finish env ?w3 = Some u" and w4: "w4 = emit Pthread_join u"
    by (auto simp: pthread_join_def)
  have w': "w' = gst_debug ''Done finalizing''
                  (emit (Set_long_field False)
                     ((emit G_free_CustomData
                        (gst_debug ''Freeing CustomData''
                           (emit Delete_global_ref
                              (upd_data (\<lambda>d. d\<lparr>app := False\<rparr>)
                                 (gst_debug ''Deleting GlobalRef for app object'' w4)))))
                      \<lparr>native_custom_data := None\<rparr>))"
    using assms j by (simp add: gst_native_finalize_def Let_def)
  have rel: "program_vars w' = program_vars u" "pad_links w' = pad_links u"
      "connections w' = connections u" "notifications w' = notifications u"
      "watches w' = watches u" "controller_calls w' = controller_calls u"
      "gst_app_thread w' = gst_app_thread u" "native_custom_data w' = None"
      "finalize_calls w' = finalize_calls u @
         [Pthread_join, Delete_global_ref, G_free_CustomData, Set_long_field False]"
    by (simp_all add: w' w4 ses eng vars obs)
  have fin: "program_vars u = program_vars ?w3 \<and> pad_links u = pad_links ?w3 \<and>
      connections u = connections ?w3 \<and> notifications u = notifications ?w3 \<and>
      finalize_calls u = finalize_calls ?w3 \<and>
      watches u = (if gst_app_thread ?w3 = In_main_loop then [] else watches ?w3) \<and>
      (gst_app_thread ?w3 \<noteq> Created \<longrightarrow> controller_calls u = controller_calls ?w3) \<and>
      thread_gone u \<and> (gst_app_thread ?w3 \<noteq> No_thread \<longrightarrow> gst_app_thread u = Exited)"
  proof (cases "gst_app_thread ?w3")
    case No_thread
    then show ?thesis using u by (simp add: thread_finish_def thread_gone_def)
  next
    case Exited
    then show ?thesis using u by (simp add: thread_finish_def thread_gone_def)
  next
    case In_main_loop
    then have "u = app_function_end env ?w3"
      using u by (simp add: thread_finish_def split: if_splits)
    then show ?thesis using In_main_loop by (simp add: end_frame thread_gone_def)
  next
    case Created
    then obtain w1 where b: "app_function_begin env ?w3 = Some w1" and e: "gst_app_thread w1 = Exited"
      and uw: "u = w1"
      using u by (auto simp: thread_finish_def split: option.splits if_splits)
    from b show ?thesis
    proof (cases rule: begin_cases)
      case early
      then show ?thesis using Created uw by (simp add: thread_gone_def)
    next
      case loop
      then show ?thesis using e by simp
    qed
  qed
  show "native_custom_data w' = None" using rel by simp
  show "thread_gone w'" using rel fin by (simp add: thread_gone_def)
  show "program_vars w' = program_vars w" using rel fin 3 by simp
  show "pad_links w' = pad_links w" using rel fin 3 by simp
  show "connections w' = connections w" using rel fin 3 by simp
  show "notifications w' = notifications w" using rel fin 3 by simp
  show "finalize_calls w' = finalize_calls w @
           [Main_loop_quit (main_loop d \<noteq> None), Pthread_join, Delete_global_ref,
            G_free_CustomData, Set_long_field False]"
    using rel fin 3 by simp
  show "watches w' = (if gst_app_thread w = In_main_loop then [] else watches w)"
    using rel fin 3 by simp
  show "gst_app_thread w \<noteq> Created \<Longrightarrow> controller_calls w' = controller_calls w"
    using rel fin 3 by simp
  show "gst_app_thread w \<noteq> No_thread \<Longrightarrow> gst_app_thread w' = Exited"
    using rel fin 3 by simp
qed

lemma session_inv_cong:
  assumes "native_custom_data w' = native_custom_data w" "gst_app_thread w' = gst_app_thread w"
    "watches w' = watches w" "connections w' = connections w"
  shows "session_inv w' = session_inv w"
  using assms by (simp add: session_inv_def handlers_known_def watches_session_def data_pipeline_def)

lemma budget_cong:
  "notifications w' = notifications w \<Longrightarrow> gst_app_thread w' = gst_app_thread w \<Longrightarrow> budget w' = budget w"
  by (simp add: budget_def)

lemma session_watch_session: "list_all (\<lambda>x. data_pipeline w = Some x) (session_watch w)"
  by (simp add: session_watch_def split: option.splits)

lemma session_handlers_known:
  "list_all (\<lambda>(x, n, h). h = Error_cb \<or> h = State_changed_cb) (session_handlers w)"
  by (simp add: session_handlers_def split: option.splits)

lemma thread_runs_inv:
  assumes "session_inv w" "gst_app_thread w = Created" "app_function_begin env w = Some w'"
  shows "session_inv w' \<and> pad_links w' = pad_links w \<and> budget w' \<le> budget w \<and>
         program_vars w' = program_vars w"
proof -
  have w0: "watches w = []" "handlers_known w"
    using assms(1,2) by (simp_all add: session_inv_def)
  from assms(3) show ?thesis
  proof (cases rule: begin_cases)
    case early
    then show ?thesis
      using w0 assms(2) by (simp add: session_inv_def handlers_known_def watches_session_def budget_def)
  next
    case loop
    have "watches_session w'"
      using loop(7) w0 session_watch_session [of w'] by (simp add: watches_session_def)
    moreover have "handlers_known w'"
      using loop(8) w0 session_handlers_known [of w'] by (simp add: handlers_known_def)
    ultimately show ?thesis
      using loop assms(2) by (simp add: session_inv_def budget_def)
  qed
qed

lemma finalize_inv:
  assumes "session_inv w" "gst_native_finalize env w = Some w'"
  shows "session_inv w' \<and> pad_links w' = pad_links w \<and> budget w' \<le> budget w \<and>
         program_vars w' = program_vars w"
proof (cases "native_custom_data w")
  case None
  then show ?thesis using assms by (simp add: gst_native_finalize_def)
next
  case (Some d)
  note f = finalize_cases [OF assms(2) Some]
  have "watches w' = []"
    using f(8) assms(1) by (auto simp: session_inv_def)
  moreover have "handlers_known w'"
    using f(5) assms(1) by (simp add: session_inv_def handlers_known_def)
  moreover have "gst_app_thread w' \<noteq> Created"
    using f(2) by (auto simp: thread_gone_def)
  ultimately show ?thesis
    using f(3,4,6) by (simp add: session_inv_def watches_session_def budget_def)
qed

lemma step_inv:
  assumes "session_inv w" "step env ev w = Some w'"
  shows "session_inv w' \<and> pad_links w' = pad_links w \<and> budget w' \<le> budget w \<and>
         program_vars w' = program_vars w \<or>
         session_inv w' \<and> pad_links w' = pad_links w \<and> budget w' \<le> budget w \<and>
         (\<exists>b0 b1 b2 b3 arg. ev = Stream_start b0 b1 b2 b3 \<or> ev = Stream_stop \<or> ev = Audio_start arg \<or> ev = Audio_stop)"
proof (cases ev)
  case Thread_runs
  show ?thesis
  proof (cases "gst_app_thread w = Created")
    case True
    then show ?thesis
      using thread_runs_inv [OF assms(1) True, of env w'] assms(2) Thread_runs by (simp add: step_def)
  next
    case False
    then show ?thesis using assms Thread_runs by (simp add: step_def)
  qed
next
  case (Engine_raises obj sg)
  then have w': "w' = snd (engine_signal env obj sg w)"
    using assms(2) by (auto simp: step_def dest: finishedD)
  have c: "calm w' = calm w"
    unfolding w' by (rule unchangedD [OF engine_signal_calm])
  note f = calm_fields [OF c]
  have "pad_links w' = pad_links w"
    unfolding w' using assms(1) by (intro engine_signal_pad_links) (simp add: session_inv_def)
  then show ?thesis
    using f assms(1) session_inv_cong [OF f(1-4)] budget_cong [OF f(5,2)] by simp
next
  case Native_finalize
  then show ?thesis
    using finalize_inv [OF assms(1), of env w'] assms(2) by (simp add: step_def)
next
  case (Stream_start b0 b1 b2 b3)
  then have "session_side w' = session_side w"
    using assms(2) by (intro command_side [of env ev]) simp_all
  note f = side_fields [OF this]
  show ?thesis
    using f assms(1) session_inv_cong [OF f(1-4)] budget_cong [OF f(7,2)] Stream_start by simp
next
  case Stream_stop
  then have "session_side w' = session_side w"
    using assms(2) by (intro command_side [of env ev]) simp_all
  note f = side_fields [OF this]
  show ?thesis
    using f assms(1) session_inv_cong [OF f(1-4)] budget_cong [OF f(7,2)] Stream_stop by simp
next
  case (Audio_start arg)
  then have "session_side w' = session_side w"
    using assms(2) by (intro command_side [of env ev]) simp_all
  note f = side_fields [OF this]
  show ?thesis
    using f assms(1) session_inv_cong [OF f(1-4)] budget_cong [OF f(7,2)] Audio_start by simp
next
  case Audio_stop
  then have "session_side w' = session_side w"
    using assms(2) by (intro command_side [of env ev]) simp_all
  note f = side_fields [OF this]
  show ?thesis
    using f assms(1) session_inv_cong [OF f(1-4)] budget_cong [OF f(7,2)] Audio_stop by simp
qed

lemma run_inv:
  "session_inv w \<Longrightarrow> run es w = Some w' \<Longrightarrow>
     session_inv w' \<and> pad_links w' = pad_links w \<and> budget w' \<le> budget w"
proof (induction es arbitrary: w)
  case Nil
  then show ?case by simp
next
  case (Cons e es)
  obtain env ev where e: "e = (env, ev)" by (cases e)
  from Cons.prems(2) e obtain w1 where s: "step env ev w = Some w1" and r: "run es w1 = Some w'"
    by (auto split: option.splits)
  have 1: "session_inv w1 \<and> pad_links w1 = pad_links w \<and> budget w1 \<le> budget w"
    using step_inv [OF Cons.prems(1) s] by blast
  then have "session_inv w' \<and> pad_links w' = pad_links w1 \<and> budget w' \<le> budget w1"
    using Cons.IH r by blast
  then show ?case using 1 by simp
qed








lemma begin_early_data:
  assumes "native_custom_data w = Some d" "parse_error env = Some e"
    "attach_ok env \<or> current_jni_env w"
  shows "\<exists>w'. app_function_begin env w = Some w' \<and> gst_app_thread w' = Exited \<and>
           native_custom_data w' \<noteq> None"
proof -
  have k: "fst (set_ui_message env m v) = None" if "attach_ok env \<or> current_jni_env v" for m v
    using that by (cases "current_jni_env v") (simp_all add: ses Let_def)
  have s: "fst (block (app_function_setup env) w) = Some (Return 0)"
    using assms(2,3)
    by (cases "current_jni_env w") (simp_all add: app_function_setup_def ctl ses eng Let_def)
  have d: "native_custom_data (snd (block (app_function_setup env) w)) \<noteq> None"
    using assms(1)
    by (cases "current_jni_env w"; cases "parse_partial env")
       (simp_all add: app_function_setup_def ctl ses eng Let_def split: prod.splits)
  obtain x1 w1 where b: "block (app_function_setup env) w = (x1, w1)"
    by (cases "block (app_function_setup env) w")
  have r: "app_function_begin_body env w = (Some (Return 0), w1)"
    using s b by (simp add: begin_body_split block_append)
  show ?thesis
    using d b by (simp add: app_function_begin_def r thread_exit_frame)
qed


lemma attach_all_ok [simp]: "attach_ok all_ok"
  by (simp add: all_ok_def)









text \<open>
  Claim C3, as the code has it. Every stop call (\<^verbatim>\<open>video_stop\<close>, the native command
  \<^verbatim>\<open>nativeStreamStop\<close> that calls it, and \<^verbatim>\<open>audio_stop\<close>) issues exactly two
  state-transition requests on its pipeline handle, first to paused and then to null,
  whatever the engine answers. Afterwards the pipeline is never playing or paused. A
  pipeline that has been created is left in the null state, whatever state it was in
  before; a stop that comes before the pipeline was ever created sends both requests to a
  NULL handle, which the engine refuses, and the pipeline stays unbuilt: it is not idle.
\<close>

theorem stop_pauses_then_nulls:
  "calls (snd (video_stop env w)) = calls w @
       [Set_state (pipeline w) GST_STATE_PAUSED (set_state_answer env (pipeline w) GST_STATE_PAUSED),
        G_print ''Video pipeline: paused\<newline>'',
        Set_state (pipeline w) GST_STATE_NULL (set_state_answer env (pipeline w) GST_STATE_NULL),
        G_print ''Video pipeline: null\<newline>'']
   \<and> pipeline (snd (video_stop env w)) = pipeline w
   \<and> state_of (snd (video_stop env w)) (pipeline w) \<noteq> Some GST_STATE_PLAYING
   \<and> state_of (snd (video_stop env w)) (pipeline w) \<noteq> Some GST_STATE_PAUSED
   \<and> state_of (snd (video_stop env w)) (pipeline w)
        = (if state_of w (pipeline w) = None then None else Some GST_STATE_NULL)
   \<and> fst (gst_native_stream_stop env w) = None
   \<and> calls (snd (gst_native_stream_stop env w)) = calls w @
       [Set_state (pipeline w) GST_STATE_PAUSED (set_state_answer env (pipeline w) GST_STATE_PAUSED),
        G_print ''Video pipeline: paused\<newline>'',
        Set_state (pipeline w) GST_STATE_NULL (set_state_answer env (pipeline w) GST_STATE_NULL),
        G_print ''Video pipeline: null\<newline>'',
        G_print ''stream_stop: OK\<newline>'',
        GST_DEBUG ''my pipeline streaming stopped'']
   \<and> pipeline (snd (gst_native_stream_stop env w)) = pipeline w
   \<and> state_of (snd (gst_native_stream_stop env w)) (pipeline w) \<noteq> Some GST_STATE_PLAYING
   \<and> state_of (snd (gst_native_stream_stop env w)) (pipeline w) \<noteq> Some GST_STATE_PAUSED
   \<and> state_of (snd (gst_native_stream_stop env w)) (pipeline w)
        = (if state_of w (pipeline w) = None then None else Some GST_STATE_NULL)
   \<and> calls (snd (audio_stop env w)) = calls w @
       [Set_state (pipeline_audio w) GST_STATE_PAUSED
          (set_state_answer env (pipeline_audio w) GST_STATE_PAUSED),
        G_print ''Audio pipeline: paused\<newline>'',
        Set_state (pipeline_audio w) GST_STATE_NULL
          (set_state_answer env (pipeline_audio w) GST_STATE_NULL),
        G_print ''Audio pipeline: null\<newline>'']
   \<and> pipeline_audio (snd (audio_stop env w)) = pipeline_audio w
   \<and> state_of (snd (audio_stop env w)) (pipeline_audio w) \<noteq> Some GST_STATE_PLAYING
   \<and> state_of (snd (audio_stop env w)) (pipeline_audio w) \<noteq> Some GST_STATE_PAUSED
   \<and> state_of (snd (audio_stop env w)) (pipeline_audio w)
        = (if state_of w (pipeline_audio w) = None then None else Some GST_STATE_NULL)"
  by (simp add: stream_stop_eval video_stop_eval audio_stop_eval state_of_two_targets)

theorem stop_pauses_then_nulls_witness:
  "state_of playing_world (pipeline playing_world) = Some GST_STATE_PLAYING
   \<and> state_of (snd (gst_native_stream_stop all_ok playing_world)) (pipeline playing_world)
       = Some GST_STATE_NULL"
proof -
  have h: "state_of playing_world (pipeline playing_world) = Some GST_STATE_PLAYING"
    by (simp add: playing_world_def state_of_def world0_def)
  note t = stop_pauses_then_nulls [of all_ok playing_world]
  have "state_of (snd (gst_native_stream_stop all_ok playing_world)) (pipeline playing_world)
        = (if state_of playing_world (pipeline playing_world) = None then None
           else Some GST_STATE_NULL)"
    using t by blast
  with h show ?thesis by simp
qed

text \<open>
  The claim as stated ("always leaves the pipeline in idle, regardless of the state before
  the call") fails for the state unbuilt: \<^verbatim>\<open>nativeStreamStop\<close> before any start returns
  normally, both requests are refused, and no pipeline is in the null state.
\<close>

theorem stop_before_start_counterexample:
  "fst (gst_native_stream_stop all_ok world0) = None
   \<and> pipeline (snd (gst_native_stream_stop all_ok world0)) = None
   \<and> calls (snd (gst_native_stream_stop all_ok world0)) =
       [Set_state None GST_STATE_PAUSED GST_STATE_CHANGE_FAILURE,
        G_print ''Video pipeline: paused\<newline>'',
        Set_state None GST_STATE_NULL GST_STATE_CHANGE_FAILURE,
        G_print ''Video pipeline: null\<newline>'',
        G_print ''stream_stop: OK\<newline>'',
        GST_DEBUG ''my pipeline streaming stopped'']
   \<and> state_of (snd (gst_native_stream_stop all_ok world0))
         (pipeline (snd (gst_native_stream_stop all_ok world0))) \<noteq> Some GST_STATE_NULL"
  by (simp add: stream_stop_eval video_stop_eval state_of_def set_state_answer_def)

text \<open>
  Claim C6. The links of a pipeline are attempted in the declared order (\<open>video_links\<close>,
  \<open>audio_links\<close>: the order of the source text). When the first \<open>k\<close> links are
  accepted and link \<open>k\<close> is refused during the first-time build, the start function
  returns -1 at once: the trace holds the \<open>k\<close> accepted links with their confirmations,
  then the one refused attempt, then the diagnostic that names the two stages, and nothing
  else; no later link is attempted and the refused one is attempted once only. When every
  link is accepted, the link stage attempts all of them in order and falls through.
\<close>

theorem link_failure_aborts_build:
  "(first_time_video w \<and> fst (video_make env w) = None \<and> k < length video_links \<and>
    (\<forall>j<k. link_accepted env (snd (video_make env w)) (video_links ! j)) \<and>
    \<not> link_accepted env (snd (video_make env w)) (video_links ! k) \<longrightarrow>
      video_start env arg w =
        (Some (Return (- 1)),
         (snd (video_make env w))
           \<lparr>links := links (snd (video_make env w)) @
                       linked_pairs (snd (video_make env w)) (take k video_links),
            calls := calls (snd (video_make env w)) @
                       linked_calls (snd (video_make env w)) (take k video_links) @
                       [Element_link (src (video_links ! k) (snd (video_make env w)))
                                     (dst (video_links ! k) (snd (video_make env w))) False,
                        GST_DEBUG (fail_msg (video_links ! k))]\<rparr>))
   \<and>
   (first_time_audio w \<and> fst (audio_make env w) = None \<and> k < length audio_links \<and>
    (\<forall>j<k. link_accepted env (snd (audio_make env w)) (audio_links ! j)) \<and>
    \<not> link_accepted env (snd (audio_make env w)) (audio_links ! k) \<longrightarrow>
      audio_start env arg w =
        (Some (Return (- 1)),
         (snd (audio_make env w))
           \<lparr>links := links (snd (audio_make env w)) @
                       linked_pairs (snd (audio_make env w)) (take k audio_links),
            calls := calls (snd (audio_make env w)) @
                       linked_calls (snd (audio_make env w)) (take k audio_links) @
                       [Element_link (src (audio_links ! k) (snd (audio_make env w)))
                                     (dst (audio_links ! k) (snd (audio_make env w))) False,
                        GST_DEBUG (fail_msg (audio_links ! k))]\<rparr>))
   \<and>
   ((\<forall>l\<in>set video_links. link_accepted env w l) \<longrightarrow>
      video_link env w =
        (None, w\<lparr>links := links w @ linked_pairs w video_links,
                  calls := calls w @ linked_calls w video_links\<rparr>))
   \<and>
   ((\<forall>l\<in>set audio_links. link_accepted env w l) \<longrightarrow>
      audio_link env w =
        (None, w\<lparr>links := links w @ linked_pairs w audio_links,
                  calls := calls w @ linked_calls w audio_links\<rparr>))"
proof (intro conjI impI)
  assume a: "first_time_video w \<and> fst (video_make env w) = None \<and> k < length video_links \<and>
    (\<forall>j<k. link_accepted env (snd (video_make env w)) (video_links ! j)) \<and>
    \<not> link_accepted env (snd (video_make env w)) (video_links ! k)"
  show "video_start env arg w =
        (Some (Return (- 1)),
         (snd (video_make env w))
           \<lparr>links := links (snd (video_make env w)) @
                       linked_pairs (snd (video_make env w)) (take k video_links),
            calls := calls (snd (video_make env w)) @
                       linked_calls (snd (video_make env w)) (take k video_links) @
                       [Element_link (src (video_links ! k) (snd (video_make env w)))
                                     (dst (video_links ! k) (snd (video_make env w))) False,
                        GST_DEBUG (fail_msg (video_links ! k))]\<rparr>)"
    using a
    by (intro video_start_link_exit)
       (simp_all add: video_link_chain link_chain_first_failure [OF video_links_read_handles])
next
  assume a: "first_time_audio w \<and> fst (audio_make env w) = None \<and> k < length audio_links \<and>
    (\<forall>j<k. link_accepted env (snd (audio_make env w)) (audio_links ! j)) \<and>
    \<not> link_accepted env (snd (audio_make env w)) (audio_links ! k)"
  show "audio_start env arg w =
        (Some (Return (- 1)),
         (snd (audio_make env w))
           \<lparr>links := links (snd (audio_make env w)) @
                       linked_pairs (snd (audio_make env w)) (take k audio_links),
            calls := calls (snd (audio_make env w)) @
                       linked_calls (snd (audio_make env w)) (take k audio_links) @
                       [Element_link (src (audio_links ! k) (snd (audio_make env w)))
                                     (dst (audio_links ! k) (snd (audio_make env w))) False,
                        GST_DEBUG (fail_msg (audio_links ! k))]\<rparr>)"
    using a
    by (intro audio_start_link_exit)
       (simp_all add: audio_link_chain link_chain_first_failure [OF audio_links_read_handles])
next
  assume "\<forall>l\<in>set video_links. link_accepted env w l"
  then show "video_link env w =
        (None, w\<lparr>links := links w @ linked_pairs w video_links,
                  calls := calls w @ linked_calls w video_links\<rparr>)"
    by (simp only: video_link_chain link_chain_all_accepted [OF video_links_read_handles])
next
  assume "\<forall>l\<in>set audio_links. link_accepted env w l"
  then show "audio_link env w =
        (None, w\<lparr>links := links w @ linked_pairs w audio_links,
                  calls := calls w @ linked_calls w audio_links\<rparr>)"
    by (simp only: audio_link_chain link_chain_all_accepted [OF audio_links_read_handles])
qed

theorem link_failure_aborts_build_witness:
  "first_time_video world0
   \<and> fst (video_make (link_refused 3 4) world0) = None
   \<and> (2::nat) < length video_links
   \<and> link_accepted (link_refused 3 4) (snd (video_make (link_refused 3 4) world0)) (video_links ! 0)
   \<and> link_accepted (link_refused 3 4) (snd (video_make (link_refused 3 4) world0)) (video_links ! 1)
   \<and> \<not> link_accepted (link_refused 3 4) (snd (video_make (link_refused 3 4) world0)) (video_links ! 2)
   \<and> fst (video_start (link_refused 3 4) [192, 168, 1, 100] world0) = Some (Return (- 1))
   \<and> last (calls (snd (video_start (link_refused 3 4) [192, 168, 1, 100] world0)))
       = GST_DEBUG ''Failed to link capsfilter with converter!\<newline>''"
proof -
  let ?E = "link_refused 3 4"
  let ?W = "snd (video_make ?E world0)"
  have m: "fst (video_make ?E world0) = None"
    by (rule video_make_ok) simp
  have h: "camera ?W = Some 0" "queue ?W = Some 2" "capsfilter ?W = Some 3" "videoconvert ?W = Some 4"
    using video_make_ok(2,4,5,6) [of ?E world0] by simp_all
  have l0: "link_accepted ?E ?W (video_links ! 0)"
    and l1: "link_accepted ?E ?W (video_links ! 1)"
    and l2: "\<not> link_accepted ?E ?W (video_links ! 2)"
    by (simp_all add: link_accepted_def video_links_def h link_answer_def)
  have k: "(2::nat) < length video_links"
    by (simp add: video_links_def)
  have before: "\<forall>j<2. link_accepted ?E ?W (video_links ! j)"
    using l0 l1 by (auto simp: less_Suc_eq numeral_2_eq_2)
  have r: "video_start ?E [192, 168, 1, 100] world0 =
        (Some (Return (- 1)),
         ?W\<lparr>links := links ?W @ linked_pairs ?W (take 2 video_links),
            calls := calls ?W @ linked_calls ?W (take 2 video_links) @
                       [Element_link (src (video_links ! 2) ?W) (dst (video_links ! 2) ?W) False,
                        GST_DEBUG (fail_msg (video_links ! 2))]\<rparr>)"
    using link_failure_aborts_build [of world0 ?E 2 "[192, 168, 1, 100]"] m k before l2
    by simp
  have f: "fail_msg (video_links ! 2) = ''Failed to link capsfilter with converter!\<newline>''"
    by (simp add: video_links_def)
  show ?thesis
    using m k l0 l1 l2 by (simp add: r f)
qed

text \<open>
  Claim C8, as the code has it. The first audio build requests the pipeline and the four stages
  \<^verbatim>\<open>openslessrc\<close>, \<^verbatim>\<open>audioconvert\<close>, \<^verbatim>\<open>speexenc\<close>, \<^verbatim>\<open>udpsink\<close> once each, in this order
  (lines 324-328). The synthetic source \<^verbatim>\<open>audiotestsrc\<close> is requested, once, exactly when the
  primary source came back NULL and the UDP sink did not: the assertion on the sink (line 331)
  stands before the failover (lines 334-337). When the primary source is unavailable and the
  pipeline, the converter, the encoder, the sink and the test source are all instantiated, the
  test source becomes \<^verbatim>\<open>audiosource\<close>, it is the first stage added to the pipeline, no
  \<^verbatim>\<open>openslessrc\<close> object exists, and construction goes on to the links. The build falls through to
  the links exactly when the pipeline, the converter, the encoder, the sink and one of the two
  sources are instantiated; otherwise an assertion (lines 331, 339-343) aborts the run inside
  \<^verbatim>\<open>audio_start\<close>: no stage is requested a second time and nothing is linked.
\<close>

theorem audio_source_fallback:
  "(pipeline_ok env \<and> \<not> make_ok env ''openslessrc'' \<and> make_ok env ''audioconvert'' \<and>
    make_ok env ''speexenc'' \<and> make_ok env ''udpsink'' \<and> make_ok env ''audiotestsrc'' \<longrightarrow>
      fst (audio_make env w) = None \<and>
      audiosource (snd (audio_make env w)) = Some (length (objects w) + 4) \<and>
      map factory (objects (snd (audio_make env w))) = map factory (objects w) @
        [''pipeline'', ''audioconvert'', ''speexenc'', ''udpsink'', ''audiotestsrc''] \<and>
      calls (snd (audio_make env w)) = calls w @
        [Pipeline_new ''pipeline-audio'' (Some (length (objects w))),
         Factory_make ''openslessrc'' (Some ''audiosource'') None,
         Factory_make ''audioconvert'' (Some ''audio-convert'') (Some (length (objects w) + 1)),
         Factory_make ''speexenc'' (Some ''audio-encoder'') (Some (length (objects w) + 2)),
         Factory_make ''udpsink'' (Some ''sink'') (Some (length (objects w) + 3)),
         Factory_make ''audiotestsrc'' None (Some (length (objects w) + 4)),
         Bin_add_many (Some (length (objects w)))
           [Some (length (objects w) + 4), Some (length (objects w) + 1),
            Some (length (objects w) + 2), Some (length (objects w) + 3)]])
   \<and> requested_stages (snd (audio_make env w)) = requested_stages w @
        [''pipeline-audio'', ''openslessrc'', ''audioconvert'', ''speexenc'', ''udpsink''] @
        (if make_ok env ''udpsink'' \<and> \<not> make_ok env ''openslessrc'' then [''audiotestsrc''] else [])
   \<and> fst (audio_make env w) = (if audio_stages_ok env then None else Some Abort)
   \<and> (first_time_audio w \<longrightarrow>
        audio_start env arg w =
          (if audio_stages_ok env
           then (case audio_link env (snd (audio_make env w)) of
                   (None, w2) \<Rightarrow> audio_play env arg (w2\<lparr>first_time_audio := False\<rparr>)
                 | (Some e, w2) \<Rightarrow> (Some e, w2))
           else (Some Abort, snd (audio_make env w))))"
proof (intro conjI impI)
  assume a: "pipeline_ok env \<and> \<not> make_ok env ''openslessrc'' \<and> make_ok env ''audioconvert'' \<and>
    make_ok env ''speexenc'' \<and> make_ok env ''udpsink'' \<and> make_ok env ''audiotestsrc''"
  show "fst (audio_make env w) = None"
    using a by (intro audio_make_fallback(1)) simp_all
  show "audiosource (snd (audio_make env w)) = Some (length (objects w) + 4)"
    using a by (intro audio_make_fallback(3)) simp_all
  show "map factory (objects (snd (audio_make env w))) = map factory (objects w) @
        [''pipeline'', ''audioconvert'', ''speexenc'', ''udpsink'', ''audiotestsrc'']"
    using a audio_make_factories [of env w] by simp
  show "calls (snd (audio_make env w)) = calls w @
        [Pipeline_new ''pipeline-audio'' (Some (length (objects w))),
         Factory_make ''openslessrc'' (Some ''audiosource'') None,
         Factory_make ''audioconvert'' (Some ''audio-convert'') (Some (length (objects w) + 1)),
         Factory_make ''speexenc'' (Some ''audio-encoder'') (Some (length (objects w) + 2)),
         Factory_make ''udpsink'' (Some ''sink'') (Some (length (objects w) + 3)),
         Factory_make ''audiotestsrc'' None (Some (length (objects w) + 4)),
         Bin_add_many (Some (length (objects w)))
           [Some (length (objects w) + 4), Some (length (objects w) + 1),
            Some (length (objects w) + 2), Some (length (objects w) + 3)]]"
    using a by (intro audio_make_fallback(8)) simp_all
next
  show "requested_stages (snd (audio_make env w)) = requested_stages w @
        [''pipeline-audio'', ''openslessrc'', ''audioconvert'', ''speexenc'', ''udpsink''] @
        (if make_ok env ''udpsink'' \<and> \<not> make_ok env ''openslessrc'' then [''audiotestsrc''] else [])"
    by (rule audio_make_requested)
next
  show "fst (audio_make env w) = (if audio_stages_ok env then None else Some Abort)"
    by (rule audio_make_exit_iff)
next
  assume f: "first_time_audio w"
  show "audio_start env arg w =
          (if audio_stages_ok env
           then (case audio_link env (snd (audio_make env w)) of
                   (None, w2) \<Rightarrow> audio_play env arg (w2\<lparr>first_time_audio := False\<rparr>)
                 | (Some e, w2) \<Rightarrow> (Some e, w2))
           else (Some Abort, snd (audio_make env w)))"
  proof (cases "audio_stages_ok env")
    case False
    then have "audio_start env arg w = (Some Abort, snd (audio_make env w))"
      using f by (intro audio_start_make_exit) (simp_all add: audio_make_exit_iff)
    then show ?thesis using False by simp
  next
    case True
    then have "fst (audio_make env w) = None"
      by (simp add: audio_make_exit_iff)
    then show ?thesis
      using f True
      by (cases "audio_make env w")
         (simp add: audio_start_split audio_build_split split: prod.splits option.splits)
  qed
qed

theorem audio_source_fallback_witness:
  "pipeline_ok no_primary_source \<and> \<not> make_ok no_primary_source ''openslessrc''
   \<and> make_ok no_primary_source ''audioconvert'' \<and> make_ok no_primary_source ''speexenc''
   \<and> make_ok no_primary_source ''udpsink'' \<and> make_ok no_primary_source ''audiotestsrc''
   \<and> first_time_audio world0
   \<and> fst (audio_make no_primary_source world0) = None
   \<and> audiosource (snd (audio_make no_primary_source world0)) = Some 4
   \<and> map factory (objects (snd (audio_make no_primary_source world0))) =
        [''pipeline'', ''audioconvert'', ''speexenc'', ''udpsink'', ''audiotestsrc'']
   \<and> fst (audio_start no_primary_source [0, 0, 0, 0] world0) = Some (Return 1)
   \<and> links (snd (audio_start no_primary_source [0, 0, 0, 0] world0)) = [(4, 1), (1, 2), (2, 3)]"
proof -
  let ?E = no_primary_source
  let ?wm = "snd (audio_make ?E world0)"
  have e: "pipeline_ok ?E" "\<not> make_ok ?E ''openslessrc''"
    "make_ok ?E ''audioconvert''" "make_ok ?E ''speexenc''"
    "make_ok ?E ''udpsink''" "make_ok ?E ''audiotestsrc''"
    by (simp_all add: no_primary_source_def)
  have ok: "audio_stages_ok ?E"
    using e by (simp add: audio_stages_ok_def)
  have lk: "link_ok ?E a b" for a b
    by (simp add: no_primary_source_def)
  have st: "state_ret ?E x s = GST_STATE_CHANGE_SUCCESS" for x s
    by (simp add: no_primary_source_def)
  note t = audio_source_fallback [of ?E world0 "[0, 0, 0, 0]"]
  have m: "fst (audio_make ?E world0) = None \<and>
      audiosource ?wm = Some (length (objects world0) + 4) \<and>
      map factory (objects ?wm) = map factory (objects world0) @
        [''pipeline'', ''audioconvert'', ''speexenc'', ''udpsink'', ''audiotestsrc'']"
    using mp [OF conjunct1 [OF t]] e by blast
  have s: "audio_start ?E [0, 0, 0, 0] world0 =
          (case audio_link ?E ?wm of
             (None, w2) \<Rightarrow> audio_play ?E [0, 0, 0, 0] (w2\<lparr>first_time_audio := False\<rparr>)
           | (Some e, w2) \<Rightarrow> (Some e, w2))"
    using mp [OF conjunct2 [OF conjunct2 [OF conjunct2 [OF t]]]] ok by simp
  have h: "pipeline_audio ?wm = Some 0" "audiosource ?wm = Some 4" "audioconvert ?wm = Some 1"
    "speexenc ?wm = Some 2" "audioudpsink ?wm = Some 3" "links ?wm = []"
    using audio_make_fallback(2-6) [OF e, of world0]
      unchangedD [OF audio_make_frame(3), of ?E world0] by simp_all
  have acc: "\<forall>l\<in>set audio_links. link_accepted ?E ?wm l"
    by (simp add: audio_links_def link_accepted_def link_answer_def h lk)
  have l: "audio_link ?E ?wm =
        (None, ?wm\<lparr>links := links ?wm @ linked_pairs ?wm audio_links,
                    calls := calls ?wm @ linked_calls ?wm audio_links\<rparr>)"
    by (rule audio_link_accepted [OF acc])
  have p: "linked_pairs ?wm audio_links = [(4, 1), (1, 2), (2, 3)]"
    by (simp add: linked_pairs_def audio_links_def h)
  have r: "fst (audio_start ?E [0, 0, 0, 0] world0) = Some (Return 1)"
    by (simp add: s l audio_play_eval Let_def h set_state_answer_def st)
  have k: "links (snd (audio_start ?E [0, 0, 0, 0] world0)) = [(4, 1), (1, 2), (2, 3)]"
    by (simp add: s l audio_play_frame h p)
  show ?thesis using e m r k by simp
qed

text \<open>
  The claim as worded, that a failed primary source is always replaced by the test source and
  construction proceeds with it, fails on a first \<^verbatim>\<open>audio_start\<close> from the initial state in two
  ways. When neither \<^verbatim>\<open>openslessrc\<close> nor \<^verbatim>\<open>udpsink\<close> can be instantiated (and
  \<^verbatim>\<open>audiotestsrc\<close> could be), the assertion of line 331 aborts before the failover: the test source
  is never requested and \<^verbatim>\<open>audiosource\<close> stays NULL. When \<^verbatim>\<open>openslessrc\<close> and \<^verbatim>\<open>audiotestsrc\<close>
  both fail, the fallback is requested, \<^verbatim>\<open>audiosource\<close> is still NULL, and the assertion of line
  340 aborts: construction does not proceed and nothing is linked.
\<close>

theorem fallback_not_substituted_counterexample:
  "first_time_audio world0
   \<and> \<not> make_ok no_source_no_sink ''openslessrc''
   \<and> make_ok no_source_no_sink ''audiotestsrc''
   \<and> fst (audio_start no_source_no_sink [0, 0, 0, 0] world0) = Some Abort
   \<and> requested_stages (snd (audio_start no_source_no_sink [0, 0, 0, 0] world0)) =
       [''pipeline-audio'', ''openslessrc'', ''audioconvert'', ''speexenc'', ''udpsink'']
   \<and> audiosource (snd (audio_start no_source_no_sink [0, 0, 0, 0] world0)) = None
   \<and> \<not> make_ok no_source_at_all ''openslessrc''
   \<and> make_ok no_source_at_all ''udpsink''
   \<and> fst (audio_start no_source_at_all [0, 0, 0, 0] world0) = Some Abort
   \<and> requested_stages (snd (audio_start no_source_at_all [0, 0, 0, 0] world0)) =
       [''pipeline-audio'', ''openslessrc'', ''audioconvert'', ''speexenc'', ''udpsink'',
        ''audiotestsrc'']
   \<and> audiosource (snd (audio_start no_source_at_all [0, 0, 0, 0] world0)) = None
   \<and> links (snd (audio_start no_source_at_all [0, 0, 0, 0] world0)) = []"
proof -
  have a: "\<not> audio_stages_ok no_source_no_sink" "\<not> audio_stages_ok no_source_at_all"
    by (simp_all add: audio_stages_ok_def no_source_no_sink_def no_source_at_all_def)
  have s1: "audio_start no_source_no_sink [0, 0, 0, 0] world0 =
              (Some Abort, snd (audio_make no_source_no_sink world0))"
    by (rule audio_start_make_exit) (simp_all add: audio_make_exit_iff a)
  have s2: "audio_start no_source_at_all [0, 0, 0, 0] world0 =
              (Some Abort, snd (audio_make no_source_at_all world0))"
    by (rule audio_start_make_exit) (simp_all add: audio_make_exit_iff a)
  have r1: "requested_stages (snd (audio_make no_source_no_sink world0)) =
       [''pipeline-audio'', ''openslessrc'', ''audioconvert'', ''speexenc'', ''udpsink'']"
    by (simp add: audio_make_requested) (simp add: requested_stages_def no_source_no_sink_def)
  have r2: "requested_stages (snd (audio_make no_source_at_all world0)) =
       [''pipeline-audio'', ''openslessrc'', ''audioconvert'', ''speexenc'', ''udpsink'',
        ''audiotestsrc'']"
    by (simp add: audio_make_requested) (simp add: requested_stages_def no_source_at_all_def)
  have e1: "make_ok no_source_no_sink = (\<lambda>f. f \<noteq> ''openslessrc'' \<and> f \<noteq> ''udpsink'')"
    "pipeline_ok no_source_no_sink"
    by (simp_all add: no_source_no_sink_def)
  have e2: "make_ok no_source_at_all = (\<lambda>f. f \<noteq> ''openslessrc'' \<and> f \<noteq> ''audiotestsrc'')"
    "pipeline_ok no_source_at_all"
    by (simp_all add: no_source_at_all_def)
  have f1: "audiosource (snd (audio_make no_source_no_sink world0)) = None"
    by (simp add: audio_make_def ctl eng new_object_def e1)
  have f2: "audiosource (snd (audio_make no_source_at_all world0)) = None"
    by (simp add: audio_make_def ctl eng new_object_def e2)
  have l2: "links (snd (audio_make no_source_at_all world0)) = []"
    using unchangedD [OF audio_make_frame(3), of no_source_at_all world0] by simp
  show ?thesis
    by (simp add: s1 s2 r1 r2 f1 f2 l2) (simp add: e1 e2)
qed



text \<open>
  Claim C10. \<^verbatim>\<open>video_start\<close> returns 0 or -1, never a positive value. It returns 0
  exactly when it runs to its end: the pipeline is built (the build-once flag is cleared)
  and the engine did not refuse the transition to playing. The native command prints
  \<^verbatim>\<open>OK\<close> only for a positive return value, so for a start that succeeded it prints
  \<^verbatim>\<open>stream_start: NOT OK\<close>, and it never adds a \<^verbatim>\<open>stream_start: OK\<close> line.
\<close>

theorem successful_start_reported_not_ok:
  "(fst (video_start env arg w) = Some (Return r) \<longrightarrow> r = 0 \<or> r = - 1)
   \<and> (fst (video_start env arg w) = Some (Return 0) \<longleftrightarrow>
        \<not> first_time_video (snd (video_start env arg w)) \<and>
        set_state_answer env (pipeline (snd (video_start env arg w))) GST_STATE_PLAYING
          \<noteq> GST_STATE_CHANGE_FAILURE)
   \<and> (fst (video_start env [bias env b0, bias env b1, bias env b2, bias env b3]
              (g_print (''receiver IP: '' @ sprintf_d4 (uint (bias env b0)) (uint (bias env b1))
                          (uint (bias env b2)) (uint (bias env b3)) @ ''\<newline>'') w))
          = Some (Return 0) \<longrightarrow>
        fst (gst_native_stream_start env b0 b1 b2 b3 w) = None \<and>
        (\<exists>cs. calls (snd (gst_native_stream_start env b0 b1 b2 b3 w)) =
                cs @ [G_print ''stream_start: NOT OK\<newline>'',
                      GST_DEBUG ''my pipeline streaming started'']))
   \<and> ok_reports (snd (gst_native_stream_start env b0 b1 b2 b3 w)) = ok_reports w"
proof (intro conjI impI)
  assume "fst (video_start env arg w) = Some (Return r)"
  then show "r = 0 \<or> r = - 1"
    using exits_inD [OF video_start_exits, of env arg w "Return r"] by auto
next
  show "fst (video_start env arg w) = Some (Return 0) \<longleftrightarrow>
        \<not> first_time_video (snd (video_start env arg w)) \<and>
        set_state_answer env (pipeline (snd (video_start env arg w))) GST_STATE_PLAYING
          \<noteq> GST_STATE_CHANGE_FAILURE"
    by (rule video_start_zero_iff)
next
  assume a: "fst (video_start env [bias env b0, bias env b1, bias env b2, bias env b3]
              (g_print (''receiver IP: '' @ sprintf_d4 (uint (bias env b0)) (uint (bias env b1))
                          (uint (bias env b2)) (uint (bias env b3)) @ ''\<newline>'') w))
          = Some (Return 0)"
  then show "fst (gst_native_stream_start env b0 b1 b2 b3 w) = None"
    by (simp add: stream_start_eval Let_def)
  from a show "\<exists>cs. calls (snd (gst_native_stream_start env b0 b1 b2 b3 w)) =
                cs @ [G_print ''stream_start: NOT OK\<newline>'',
                      GST_DEBUG ''my pipeline streaming started'']"
    by (simp add: stream_start_eval Let_def)
next
  let ?ip = "[bias env b0, bias env b1, bias env b2, bias env b3]"
  let ?w1 = "g_print (''receiver IP: '' @ sprintf_d4 (uint (?ip ! 0)) (uint (?ip ! 1))
                          (uint (?ip ! 2)) (uint (?ip ! 3)) @ ''\<newline>'') w"
  have 1: "ok_reports ?w1 = ok_reports w"
    by (simp add: ok_reports_def eng)
  have 2: "ok_reports (snd (video_start env ?ip ?w1)) = ok_reports ?w1"
    by (rule unchangedD [OF video_start_ok_reports])
  have "ok_reports (snd (gst_native_stream_start env b0 b1 b2 b3 w))
          = ok_reports (snd (video_start env ?ip ?w1))"
    by (simp add: stream_start_eval Let_def ok_reports_def)
  with 1 2 show "ok_reports (snd (gst_native_stream_start env b0 b1 b2 b3 w)) = ok_reports w"
    by simp
qed

theorem successful_start_reported_not_ok_witness:
  "fst (video_start all_ok [bias all_ok 64, bias all_ok 40, bias all_ok 129, bias all_ok 228]
          (g_print (''receiver IP: '' @ sprintf_d4 (uint (bias all_ok 64)) (uint (bias all_ok 40))
                      (uint (bias all_ok 129)) (uint (bias all_ok 228)) @ ''\<newline>'') world0))
     = Some (Return 0)
   \<and> fst (gst_native_stream_start all_ok 64 40 129 228 world0) = None
   \<and> (\<exists>cs. calls (snd (gst_native_stream_start all_ok 64 40 129 228 world0)) =
             cs @ [G_print ''stream_start: NOT OK\<newline>'',
                   GST_DEBUG ''my pipeline streaming started''])"
proof -
  have f: "first_time_video (g_print s world0)" for s
    by (simp add: eng)
  note z = video_start_all_ok [OF f]
  note t = successful_start_reported_not_ok [of all_ok "[]" world0 0 64 40 129 228]
  note c = conjunct1 [OF conjunct2 [OF conjunct2 [OF t]]]
  note r = mp [OF c z]
  show ?thesis
    by (intro conjI) (rule z, rule conjunct1 [OF r], rule conjunct2 [OF r])
qed

end
